theory Spec2Isabelle
  imports Complex_Main "HOL-Library.Sublist"
begin

section \<open>Python values, exceptions and list primitives\<close>

text \<open>
  The program is Python: \<^verbatim>\<open>src/app.py\<close>. A raised exception is the left summand
  of the result type, a normal return the right one. Python floats are modelled as the reals
  (rounding, infinities produced by overflow and NaN are outside the model); the one infinity
  the source writes itself, \<^verbatim>\<open>float('inf')\<close>, is a constructor of its own.
\<close>

datatype error = IndexError | ZeroDivisionError | ValueError | StopIteration

text \<open>
  Arguments of \<^verbatim>\<open>analyze_stock\<close> are untyped in the source, so a caller may pass a
  value that is not a string. A character stands for a code point below 256.
\<close>

datatype pyval = PyNone | PyStr string | PyInt int

datatype pyfloat = Fin real | PInf

definition bind_res :: "error + 'a \<Rightarrow> ('a \<Rightarrow> error + 'b) \<Rightarrow> error + 'b" where
  "bind_res m f = (case m of Inl e \<Rightarrow> Inl e | Inr v \<Rightarrow> f v)"

text \<open>A list comprehension whose body may raise: the first exception ends it.\<close>

fun map_res :: "('a \<Rightarrow> error + 'b) \<Rightarrow> 'a list \<Rightarrow> error + 'b list" where
  "map_res f [] = Inr []"
| "map_res f (x # xs) =
     bind_res (f x) (\<lambda>y. bind_res (map_res f xs) (\<lambda>ys. Inr (y # ys)))"

text \<open>\<^verbatim>\<open>xs[i]\<close>: a negative index counts from the end, anything out of range raises.\<close>

definition py_getitem :: "'a list \<Rightarrow> int \<Rightarrow> error + 'a" where
  "py_getitem xs i =
     (if 0 \<le> i \<and> i < int (length xs) then Inr (xs ! nat i)
      else if - int (length xs) \<le> i \<and> i < 0 then Inr (xs ! nat (int (length xs) + i))
      else Inl IndexError)"

text \<open>\<^verbatim>\<open>xs[lo:hi]\<close>: both bounds are clamped into the list, nothing raises.\<close>

definition py_clamp :: "int \<Rightarrow> int \<Rightarrow> int" where
  "py_clamp n k = (if k < 0 then max (n + k) 0 else min k n)"

definition py_slice :: "'a list \<Rightarrow> int \<Rightarrow> int \<Rightarrow> 'a list" where
  "py_slice xs lo hi =
     (let n = int (length xs)
      in drop (nat (py_clamp n lo)) (take (nat (py_clamp n hi)) xs))"

text \<open>\<^verbatim>\<open>range(a, b)\<close>, empty when \<open>b \<le> a\<close>.\<close>

definition py_range :: "int \<Rightarrow> int \<Rightarrow> int list" where
  "py_range a b = map (\<lambda>k. a + int k) [0..<nat (b - a)]"

text \<open>Float division: a zero divisor raises.\<close>

definition py_div :: "real \<Rightarrow> real \<Rightarrow> error + real" where
  "py_div a b = (if b = 0 then Inl ZeroDivisionError else Inr (a / b))"

section \<open>The data model\<close>

text \<open>
  \<^verbatim>\<open>get_stock_data\<close> builds one dict per trading day with the six keys below;
  \<^verbatim>\<open>calculate_technical_indicators\<close> adds the keys \<^verbatim>\<open>sma20\<close> and \<^verbatim>\<open>rsi\<close>,
  whose value is a float or \<^verbatim>\<open>None\<close>. The key \<^verbatim>\<open>open\<close> is the field \<open>open_price\<close>
  here. A date is a point on the time line.
\<close>

type_synonym date = int

record price_point =
  date :: date
  close :: real
  open_price :: real
  high :: real
  low :: real
  volume :: real

record indicator_row = price_point +
  sma20 :: "real option"
  rsi :: "real option"

section \<open>The indicator engine\<close>

text \<open>Lines 73-77: the body of the SMA loop at index \<open>i\<close>.\<close>

definition sma20_at :: "real list \<Rightarrow> int \<Rightarrow> real option" where
  "sma20_at closes i =
     (if i \<ge> 19 then Some (sum_list (py_slice closes (i - 19) (i + 1)) / 20) else None)"

text \<open>Lines 81-92: the body of the RSI loop at index \<open>i\<close>.\<close>

definition rsi_at :: "real list \<Rightarrow> int \<Rightarrow> error + real option" where
  "rsi_at closes i =
     (if i \<ge> 14 then
        bind_res (map_res (\<lambda>j. bind_res (py_getitem closes j) (\<lambda>a.
                                 bind_res (py_getitem closes (j - 1)) (\<lambda>b. Inr (a - b))))
                    (py_range (i - 13) (i + 1))) (\<lambda>deltas.
        let gains = map (\<lambda>d. if d > 0 then d else 0) deltas;
            losses = map (\<lambda>d. if d < 0 then - d else 0) deltas;
            avg_gain = sum_list gains / 14;
            avg_loss = sum_list losses / 14
        in bind_res (if avg_loss \<noteq> 0 then bind_res (py_div avg_gain avg_loss) (\<lambda>q. Inr (Fin q))
                     else Inr PInf) (\<lambda>rs.
           bind_res (case rs of
                       Fin r \<Rightarrow> bind_res (py_div 100 (1 + r)) (\<lambda>q. Inr (100 - q))
                     | PInf \<Rightarrow> Inr 100) (\<lambda>rsi_value.
           Inr (Some rsi_value))))
      else Inr None)"

text \<open>
  Lines 58-99. The two loops append one entry per index of \<^verbatim>\<open>closes\<close>; the third
  loop writes \<^verbatim>\<open>sma20[i]\<close> and \<^verbatim>\<open>rsi[i]\<close> into the \<open>i\<close>-th dict. The result is the
  triple the source returns.
\<close>

definition calculate_technical_indicators ::
  "price_point list \<Rightarrow> error + (indicator_row list \<times> real option \<times> real option)" where
  "calculate_technical_indicators data =
     (if data = [] then Inr ([], None, None)
      else
        let closes = map close data;
            sma20s = map (sma20_at closes) (py_range 0 (int (length closes)))
        in bind_res (map_res (rsi_at closes) (py_range 0 (int (length closes)))) (\<lambda>rsis.
           bind_res (map_res (\<lambda>(i, d).
                        bind_res (py_getitem sma20s (int i)) (\<lambda>s.
                        bind_res (py_getitem rsis (int i)) (\<lambda>r.
                        Inr (price_point.extend d \<lparr>sma20 = s, rsi = r\<rparr>))))
                      (enumerate 0 data)) (\<lambda>rows.
           bind_res (py_getitem sma20s (- 1)) (\<lambda>current_sma20.
           bind_res (py_getitem rsis (- 1)) (\<lambda>current_rsi.
           Inr (rows, current_sma20, current_rsi))))))"

section \<open>The data collaborator\<close>

text \<open>
  \<^verbatim>\<open>get_stock_data\<close> (lines 6-56) reads the clock and calls the price provider
  (\<^verbatim>\<open>yfinance\<close>). Both are outside the program and are parameters here: \<open>now\<close> is
  \<^verbatim>\<open>datetime.now()\<close>, \<open>year_start t\<close> is January 1 of the year of \<open>t\<close>, and
  \<open>history ticker period\<close> is the outcome of the \<^verbatim>\<open>try\<close> block up to the converted
  rows: \<open>Inl msg\<close> when anything in it raises an exception \<open>e\<close> with \<^verbatim>\<open>str(e) = msg\<close>,
  \<open>Inr rows\<close> with the rows of the data frame otherwise. Dates count microseconds. Every
  call of the provider is recorded, in order, beside the result. The debug prints are not
  modelled.
\<close>

datatype period = PeriodMax | Period date date

datatype fetch_call = History string period

record provider =
  now :: date
  year_start :: "date \<Rightarrow> date"
  history :: "string \<Rightarrow> period \<Rightarrow> string + price_point list"

definition timedelta_days :: "int \<Rightarrow> int" where
  "timedelta_days d = d * 86400000000"

definition timeframes :: "(string \<times> int) list" where
  "timeframes = [(''1D'', 1), (''5D'', 5), (''1M'', 30), (''3M'', 90), (''1Y'', 365),
                 (''5Y'', 1825), (''Max'', 10000)]"

definition get_stock_data ::
  "provider \<Rightarrow> string \<Rightarrow> string
     \<Rightarrow> (price_point list option \<times> string option) \<times> fetch_call list" where
  "get_stock_data env ticker timeframe =
     (let end_date = now env
      in case (if timeframe = ''YTD'' then Some (year_start env end_date)
               else case map_of timeframes timeframe of
                      Some days \<Rightarrow> Some (end_date - timedelta_days days)
                    | None \<Rightarrow> None) of
           None \<Rightarrow> ((None, Some (''Invalid timeframe: '' @ timeframe)), [])
         | Some start_date \<Rightarrow>
             let p = (if timeframe = ''Max'' then PeriodMax else Period start_date end_date)
             in ((case history env ticker p of
                    Inl msg \<Rightarrow> (None, Some (''Error fetching data: '' @ msg))
                  | Inr df \<Rightarrow>
                      if df = []
                      then (None, Some (''Error fetching data: '' @
                                        ''No data found for ticker '' @ ticker @ ''.''))
                      else (Some (sort_key date df), None)),
                 [History ticker p]))"

section \<open>The analyzer\<close>

text \<open>Truthiness, \<^verbatim>\<open>isinstance(x, str)\<close>, \<^verbatim>\<open>str.strip\<close> and \<^verbatim>\<open>str.join\<close>.\<close>

fun py_truthy :: "pyval \<Rightarrow> bool" where
  "py_truthy PyNone = False"
| "py_truthy (PyStr s) = (s \<noteq> [])"
| "py_truthy (PyInt n) = (n \<noteq> 0)"

fun is_str :: "pyval \<Rightarrow> bool" where
  "is_str (PyStr s) = True"
| "is_str v = False"

definition py_isspace :: "char \<Rightarrow> bool" where
  "py_isspace c = (of_char c \<in> {9, 10, 11, 12, 13, 28, 29, 30, 31, 32, 133, 160 :: nat})"

definition py_strip :: "string \<Rightarrow> string" where
  "py_strip s = rev (dropWhile py_isspace (rev (dropWhile py_isspace s)))"

fun py_join :: "string \<Rightarrow> string list \<Rightarrow> string" where
  "py_join sep [] = []"
| "py_join sep [x] = x"
| "py_join sep (x # y # ys) = x @ sep @ py_join sep (y # ys)"

text \<open>\<^verbatim>\<open>max\<close> and \<^verbatim>\<open>min\<close> keep the first item and replace it by a later one only
  when that one is strictly greater (smaller); on an empty list they raise.\<close>

definition py_max :: "real list \<Rightarrow> error + real" where
  "py_max xs = (case xs of [] \<Rightarrow> Inl ValueError
                | x # rest \<Rightarrow> Inr (foldl (\<lambda>m y. if y > m then y else m) x rest))"

definition py_min :: "real list \<Rightarrow> error + real" where
  "py_min xs = (case xs of [] \<Rightarrow> Inl ValueError
                | x # rest \<Rightarrow> Inr (foldl (\<lambda>m y. if y < m then y else m) x rest))"

text \<open>\<^verbatim>\<open>next(g)\<close> on a generator with the items \<open>xs\<close>.\<close>

definition py_next :: "'a list \<Rightarrow> error + 'a" where
  "py_next xs = (case xs of [] \<Rightarrow> Inl StopIteration | x # rest \<Rightarrow> Inr x)"

definition valid_timeframes :: "string list" where
  "valid_timeframes = [''1D'', ''5D'', ''1M'', ''3M'', ''1Y'', ''5Y'', ''YTD'', ''Max'']"

text \<open>Line 114.\<close>

definition error_msg :: string where
  "error_msg = ''Invalid input: Please provide a valid ticker and timeframe ('' @
               py_join '', '' valid_timeframes @ '').''"

text \<open>Line 113. The \<^verbatim>\<open>or\<close> chain stops at the first true disjunct, so \<^verbatim>\<open>strip\<close>
  is only called on a string.\<close>

definition invalid_input :: "pyval \<Rightarrow> pyval \<Rightarrow> bool" where
  "invalid_input ticker timeframe =
     (\<not> py_truthy ticker \<or> \<not> is_str ticker \<or>
      (case ticker of PyStr t \<Rightarrow> py_strip t = [] | _ \<Rightarrow> True) \<or>
      timeframe \<notin> set (map PyStr valid_timeframes))"

fun the_str :: "pyval \<Rightarrow> string" where
  "the_str (PyStr s) = s"
| "the_str v = []"

text \<open>
  The figures of the report. The rendered text (lines 142-219) is a formatting of these,
  the ticker and the timeframe, and is not modelled, nor are the formatting of the two
  dates by \<^verbatim>\<open>strftime\<close> and the volatility that \<^verbatim>\<open>numpy\<close> computes from
  \<open>returns\<close>.
\<close>

record summary =
  current_price :: real
  highest_peak :: real
  lowest_peak :: real
  highest_peak_date :: date
  lowest_peak_date :: date
  price_change_pct :: real
  returns :: "real list"
  current_sma20 :: "real option"
  current_rsi :: "real option"
  trend :: string

text \<open>Lines 138-140. \<^verbatim>\<open>current_sma20 and \<dots>\<close> is false for \<^verbatim>\<open>None\<close> and for \<open>0.0\<close>.\<close>

definition trend_of :: "real option \<Rightarrow> real \<Rightarrow> string" where
  "trend_of sma price =
     (case sma of
        None \<Rightarrow> ''neutral''
      | Some s \<Rightarrow> if s \<noteq> 0 \<and> price > s then ''bullish''
                  else if s \<noteq> 0 \<and> price < s then ''bearish''
                  else ''neutral'')"

text \<open>Lines 125-140, on the rows and the two current values of the indicator engine.\<close>

definition derive_summary ::
  "indicator_row list \<Rightarrow> real option \<Rightarrow> real option \<Rightarrow> error + summary" where
  "derive_summary data cur_sma20 cur_rsi =
     bind_res (py_getitem data (- 1)) (\<lambda>last_row.
     let price = close last_row;
         closes = map close data
     in bind_res (py_max closes) (\<lambda>highest.
        bind_res (py_min closes) (\<lambda>lowest.
        bind_res (py_next (map date (filter (\<lambda>d. close d = highest) data))) (\<lambda>highest_date.
        bind_res (py_next (map date (filter (\<lambda>d. close d = lowest) data))) (\<lambda>lowest_date.
        bind_res (if length data > 1
                  then bind_res (py_div (price - lowest) lowest) (\<lambda>q. Inr (q * 100))
                  else Inr 0) (\<lambda>change_pct.
        bind_res (if length closes > 1
                  then map_res (\<lambda>i. bind_res (py_getitem closes i) (\<lambda>a.
                                      bind_res (py_getitem closes (i - 1)) (\<lambda>b.
                                      bind_res (py_getitem closes (i - 1)) (\<lambda>c.
                                      py_div (a - b) c))))
                         (py_range 1 (int (length closes)))
                  else Inr []) (\<lambda>rets.
        Inr \<lparr>current_price = price, highest_peak = highest, lowest_peak = lowest,
             highest_peak_date = highest_date, lowest_peak_date = lowest_date,
             price_change_pct = change_pct, returns = rets,
             current_sma20 = cur_sma20, current_rsi = cur_rsi,
             trend = trend_of cur_sma20 price\<rparr>)))))))"

text \<open>Lines 101-221. The result is the returned triple and the provider calls made.\<close>

definition analyze_stock ::
  "provider \<Rightarrow> pyval \<Rightarrow> pyval
     \<Rightarrow> error + ((summary option \<times> indicator_row list option \<times> string option)
                  \<times> fetch_call list)" where
  "analyze_stock env ticker timeframe =
     (if invalid_input ticker timeframe then Inr ((None, None, Some error_msg), [])
      else
        case get_stock_data env (the_str ticker) (the_str timeframe) of
          ((data, err), calls) \<Rightarrow>
            if (err \<noteq> None \<and> err \<noteq> Some []) \<or> data = None \<or> data = Some []
            then Inr ((None, None,
                       Some (if err \<noteq> None \<and> err \<noteq> Some [] then the err
                             else ''No data available.'')), calls)
            else
              bind_res (calculate_technical_indicators (the data)) (\<lambda>(rows, cur_sma20, cur_rsi).
              bind_res (derive_summary rows cur_sma20 cur_rsi) (\<lambda>s.
              Inr ((Some s, Some rows, None), calls))))"

section \<open>The pie chart\<close>

text \<open>Lines 288-322: the five counts and the figure, of which the sizes and labels passed
  to \<^verbatim>\<open>plt.pie\<close> are kept. \<^verbatim>\<open>sum(1 for d in data if c)\<close> adds a one for each row
  that passes the test; the tests of lines 302 and 303 are \<open>is_above_sma\<close> and
  \<open>is_below_sma\<close>.\<close>

definition is_above_sma :: "indicator_row \<Rightarrow> bool" where
  "is_above_sma d = (case sma20 d of None \<Rightarrow> False | Some s \<Rightarrow> close d > s)"

definition is_below_sma :: "indicator_row \<Rightarrow> bool" where
  "is_below_sma d = (case sma20 d of None \<Rightarrow> False | Some s \<Rightarrow> close d \<le> s)"

definition above_sma :: "indicator_row list \<Rightarrow> nat" where
  "above_sma data = sum_list (map (\<lambda>d. 1) (filter is_above_sma data))"

definition below_sma :: "indicator_row list \<Rightarrow> nat" where
  "below_sma data = sum_list (map (\<lambda>d. 1) (filter is_below_sma data))"

definition overbought :: "indicator_row list \<Rightarrow> nat" where
  "overbought data =
     sum_list (map (\<lambda>d. 1) (filter (\<lambda>d. case rsi d of None \<Rightarrow> False | Some r \<Rightarrow> r > 70) data))"

definition oversold :: "indicator_row list \<Rightarrow> nat" where
  "oversold data =
     sum_list (map (\<lambda>d. 1) (filter (\<lambda>d. case rsi d of None \<Rightarrow> False | Some r \<Rightarrow> r < 30) data))"

definition neutral_rsi :: "indicator_row list \<Rightarrow> nat" where
  "neutral_rsi data =
     sum_list (map (\<lambda>d. 1)
       (filter (\<lambda>d. case rsi d of None \<Rightarrow> False | Some r \<Rightarrow> 30 \<le> r \<and> r \<le> 70) data))"

record pie_chart =
  sizes :: "nat list"
  labels :: "string list"

definition plot_pie_chart :: "indicator_row list \<Rightarrow> pie_chart option" where
  "plot_pie_chart data =
     (if data = [] then None
      else
        let counts = [above_sma data, below_sma data, overbought data, oversold data,
                      neutral_rsi data];
            names = [''Above SMA'', ''Below SMA'', ''Overbought (RSI > 70)'',
                     ''Oversold (RSI < 30)'', ''Neutral RSI''];
            szs = filter (\<lambda>s. s > 0) counts;
            lbls = map fst (filter (\<lambda>(l, s). s > 0) (zip names counts))
        in if szs = [] then None else Some \<lparr>sizes = szs, labels = lbls\<rparr>)"

section \<open>The specification's indicator formulas\<close>

text \<open>
  These three definitions follow the words of the specification, not the code: the mean of
  a list, the 20-point moving average at index \<open>i\<close> as the mean of the closes at the
  indices \<open>i - 19\<close> to \<open>i\<close>, and the 14-point relative strength index at \<open>i\<close> from the
  14 differences \<open>close[j] - close[j-1]\<close> for \<open>j\<close> from \<open>i - 13\<close> to \<open>i\<close>.
\<close>

definition mean :: "real list \<Rightarrow> real" where
  "mean xs = sum_list xs / real (length xs)"

definition sma20_spec :: "real list \<Rightarrow> nat \<Rightarrow> real" where
  "sma20_spec closes i = mean (map (\<lambda>j. closes ! j) [i - 19..<i + 1])"

definition rsi14_spec :: "real list \<Rightarrow> nat \<Rightarrow> real" where
  "rsi14_spec closes i =
     (let deltas = map (\<lambda>j. closes ! j - closes ! (j - 1)) [i - 13..<i + 1];
          gains = map (\<lambda>d. if d > 0 then d else 0) deltas;
          losses = map (\<lambda>d. if d < 0 then \<bar>d\<bar> else 0) deltas;
          avg_gain = mean gains;
          avg_loss = mean losses
      in if avg_loss = 0 then 100 else 100 - 100 / (1 + avg_gain / avg_loss))"

definition sma20_opt :: "real list \<Rightarrow> nat \<Rightarrow> real option" where
  "sma20_opt closes i = (if 19 \<le> i then Some (sma20_spec closes i) else None)"

definition rsi14_opt :: "real list \<Rightarrow> nat \<Rightarrow> real option" where
  "rsi14_opt closes i = (if 14 \<le> i then Some (rsi14_spec closes i) else None)"

section \<open>Example series\<close>

text \<open>A series with the given closes on consecutive dates, and three lists of closes:
  rising by one, flat, and alternating.\<close>

definition series :: "real list \<Rightarrow> price_point list" where
  "series cs = map (\<lambda>(k, c). \<lparr>date = int k, close = c, open_price = c, high = c, low = c,
                                volume = 0\<rparr>) (enumerate 0 cs)"

text \<open>A provider that answers every request with the same outcome.\<close>

definition provider_of :: "string + price_point list \<Rightarrow> provider" where
  "provider_of outcome =
     \<lparr>now = 1000 * 86400000000, year_start = (\<lambda>t. t - 300 * 86400000000),
      history = (\<lambda>ticker p. outcome)\<rparr>"

text \<open>Five rows as a provider may deliver them, not in date order, with the highest and
  the lowest close each on two dates.\<close>

definition unsorted5 :: "price_point list" where
  "unsorted5 = [\<lparr>date = 2, close = 7, open_price = 7, high = 7, low = 7, volume = 0\<rparr>,
                \<lparr>date = 0, close = 3, open_price = 3, high = 3, low = 3, volume = 0\<rparr>,
                \<lparr>date = 1, close = 7, open_price = 7, high = 7, low = 7, volume = 0\<rparr>,
                \<lparr>date = 4, close = 2, open_price = 2, high = 2, low = 2, volume = 0\<rparr>,
                \<lparr>date = 3, close = 2, open_price = 2, high = 2, low = 2, volume = 0\<rparr>]"

text \<open>A provider that has rows for the whole history of a ticker and none for any
  requested range of dates.\<close>

definition provider_empty_range :: provider where
  "provider_empty_range =
     \<lparr>now = 1000 * 86400000000, year_start = (\<lambda>t. t - 300 * 86400000000),
      history = (\<lambda>ticker p. case p of PeriodMax \<Rightarrow> Inr unsorted5 | Period a b \<Rightarrow> Inr [])\<rparr>"

text \<open>A row with the given close and \<open>sma20\<close> entry.\<close>

definition row_with :: "real \<Rightarrow> real option \<Rightarrow> indicator_row" where
  "row_with c s = \<lparr>date = 0, close = c, open_price = c, high = c, low = c, volume = 0,
                    sma20 = s, rsi = None\<rparr>"

definition ramp20 :: "real list" where
  "ramp20 = [1, 2, 3, 4, 5, 6, 7, 8, 9, 10, 11, 12, 13, 14, 15, 16, 17, 18, 19, 20]"

definition flat20 :: "real list" where
  "flat20 = [5, 5, 5, 5, 5, 5, 5, 5, 5, 5, 5, 5, 5, 5, 5, 5, 5, 5, 5, 5]"

definition zigzag16 :: "real list" where
  "zigzag16 = [10, 12, 11, 13, 12, 14, 13, 15, 14, 16, 15, 17, 16, 18, 17, 20]"

section \<open>Properties of the primitives\<close>

lemma bind_res_Inr [simp]: "bind_res (Inr v) f = f v"
  by (simp add: bind_res_def)

lemma bind_res_Inl [simp]: "bind_res (Inl e) f = Inl e"
  by (simp add: bind_res_def)

lemma map_res_total:
  "(\<And>x. x \<in> set xs \<Longrightarrow> f x = Inr (g x)) \<Longrightarrow> map_res f xs = Inr (map g xs)"
  by (induction xs) simp_all

lemma py_getitem_int:
  "0 \<le> i \<Longrightarrow> i < int (length xs) \<Longrightarrow> py_getitem xs i = Inr (xs ! nat i)"
  by (simp add: py_getitem_def)

lemma py_getitem_nat:
  "i < length xs \<Longrightarrow> py_getitem xs (int i) = Inr (xs ! i)"
  by (simp add: py_getitem_def)

lemma py_getitem_last:
  "xs \<noteq> [] \<Longrightarrow> py_getitem xs (- 1) = Inr (xs ! (length xs - 1))"
  by (cases xs) (simp_all add: py_getitem_def Let_def nat_diff_distrib' algebra_simps)

lemma py_range_nat:
  "a \<le> b \<Longrightarrow> py_range (int a) (int b) = map int [a..<b]"
  unfolding py_range_def
  by (intro nth_equalityI) (auto simp: nat_diff_distrib')

lemma py_slice_nat:
  "a \<le> b \<Longrightarrow> b \<le> length xs \<Longrightarrow> py_slice xs (int a) (int b) = map (\<lambda>j. xs ! j) [a..<b]"
proof -
  assume ab: "a \<le> b" and bl: "b \<le> length xs"
  have "drop a (take b xs) = map (\<lambda>j. xs ! j) [a..<b]"
    using ab bl by (intro nth_equalityI) simp_all
  then show ?thesis
    using ab bl by (simp add: py_slice_def py_clamp_def Let_def)
qed

lemma sma20_at_eq:
  assumes "i < length closes"
  shows "sma20_at closes (int i) = (if 19 \<le> i then Some (sma20_spec closes i) else None)"
proof (cases "19 \<le> i")
  case True
  have "int i - 19 = int (i - 19)" "int i + 1 = int (i + 1)"
    using True by simp_all
  then have "py_slice closes (int i - 19) (int i + 1) = map (\<lambda>j. closes ! j) [i - 19..<i + 1]"
    using py_slice_nat[of "i - 19" "i + 1" closes] assms by (simp only:)
  with True show ?thesis by (simp add: sma20_at_def sma20_spec_def mean_def)
next
  case False
  then show ?thesis by (simp add: sma20_at_def)
qed

section \<open>The indicator engine computes the specified formulas\<close>

lemma gains_nonneg: "0 \<le> sum_list (map (\<lambda>d::real. if d > 0 then d else 0) ds)"
  by (rule sum_list_nonneg) auto

lemma losses_nonneg: "0 \<le> sum_list (map (\<lambda>d::real. if d < 0 then - d else 0) ds)"
  by (rule sum_list_nonneg) auto

lemma losses_abs:
  "map (\<lambda>d::real. if d < 0 then \<bar>d\<bar> else 0) ds = map (\<lambda>d. if d < 0 then - d else 0) ds"
  by simp

lemma deltas_total:
  assumes "14 \<le> i" "i < length closes"
  shows "map_res (\<lambda>j. bind_res (py_getitem closes j) (\<lambda>a.
                        bind_res (py_getitem closes (j - 1)) (\<lambda>b. Inr (a - b))))
           (py_range (int i - 13) (int i + 1))
         = Inr (map (\<lambda>j. closes ! j - closes ! (j - 1)) [i - 13..<i + 1])"
proof -
  have r: "py_range (int i - 13) (int i + 1) = map int [i - 13..<i + 1]"
  proof -
    have "int i - 13 = int (i - 13)" "int i + 1 = int (i + 1)"
      using assms by simp_all
    then show ?thesis
      using py_range_nat[of "i - 13" "i + 1"] by (simp only:)
  qed
  have "map_res (\<lambda>j. bind_res (py_getitem closes j) (\<lambda>a.
                        bind_res (py_getitem closes (j - 1)) (\<lambda>b. Inr (a - b))))
           (map int [i - 13..<i + 1])
        = Inr (map (\<lambda>j. closes ! nat j - closes ! nat (j - 1)) (map int [i - 13..<i + 1]))"
  proof (rule map_res_total)
    fix x assume "x \<in> set (map int [i - 13..<i + 1])"
    then obtain j where x: "x = int j" and j: "i - 13 \<le> j" "j < i + 1"
      by auto
    from j assms have j1: "1 \<le> j" "j < length closes" by simp_all
    have x1: "x - 1 = int (j - 1)" using x j1 by simp
    have a: "py_getitem closes x = Inr (closes ! nat x)"
      using j1 x by (intro py_getitem_int) simp_all
    have b: "py_getitem closes (x - 1) = Inr (closes ! nat (x - 1))"
      using j1 x by (intro py_getitem_int) simp_all
    show "bind_res (py_getitem closes x) (\<lambda>a.
                        bind_res (py_getitem closes (x - 1)) (\<lambda>b. Inr (a - b)))
                     = Inr (closes ! nat x - closes ! nat (x - 1))"
      by (simp only: a b bind_res_Inr)
  qed
  moreover have "map (\<lambda>j. closes ! nat j - closes ! nat (j - 1)) (map int [i - 13..<i + 1])
        = map (\<lambda>j. closes ! j - closes ! (j - 1)) [i - 13..<i + 1]"
    by (simp add: nat_diff_distrib')
  ultimately show ?thesis using r by simp
qed

lemma rsi_formula:
  fixes g l :: real
  assumes "0 \<le> g" "0 \<le> l"
  shows "bind_res (if l / 14 \<noteq> 0 then bind_res (py_div (g / 14) (l / 14)) (\<lambda>q. Inr (Fin q))
                     else Inr PInf) (\<lambda>rs.
           bind_res (case rs of
                       Fin r \<Rightarrow> bind_res (py_div 100 (1 + r)) (\<lambda>q. Inr (100 - q))
                     | PInf \<Rightarrow> Inr 100) (\<lambda>rsi_value.
           Inr (Some rsi_value)))
         = Inr (Some (if l / 14 = 0 then 100 else 100 - 100 / (1 + (g / 14) / (l / 14))))"
proof (cases "l = 0")
  case True
  then show ?thesis by simp
next
  case False
  with assms have "0 \<le> g / l" by simp
  then have "1 + g / l \<noteq> 0" by linarith
  with False show ?thesis by (simp add: py_div_def)
qed

lemma rsi_at_eq:
  assumes "i < length closes"
  shows "rsi_at closes (int i) = Inr (if 14 \<le> i then Some (rsi14_spec closes i) else None)"
proof (cases "14 \<le> i")
  case True
  let ?ds = "map (\<lambda>j. closes ! j - closes ! (j - 1)) [i - 13..<i + 1]"
  have len: "length ?ds = 14" using True by simp
  have g14: "14 \<le> int i" using True by simp
  have "rsi_at closes (int i) =
        Inr (Some (if sum_list (map (\<lambda>d. if d < 0 then - d else 0) ?ds) / 14 = 0 then 100
                   else 100 - 100 / (1 + (sum_list (map (\<lambda>d. if d > 0 then d else 0) ?ds) / 14)
                                        / (sum_list (map (\<lambda>d. if d < 0 then - d else 0) ?ds) / 14))))"
    unfolding rsi_at_def Let_def
    by (simp only: g14 if_True deltas_total[OF True assms] bind_res_Inr
          rsi_formula[OF gains_nonneg losses_nonneg])
  moreover have "rsi14_spec closes i =
        (if sum_list (map (\<lambda>d. if d < 0 then - d else 0) ?ds) / 14 = 0 then 100
                   else 100 - 100 / (1 + (sum_list (map (\<lambda>d. if d > 0 then d else 0) ?ds) / 14)
                                        / (sum_list (map (\<lambda>d. if d < 0 then - d else 0) ?ds) / 14)))"
    unfolding rsi14_spec_def Let_def mean_def losses_abs using len
    by (simp only: length_map) simp
  ultimately show ?thesis using True by simp
next
  case False
  then show ?thesis by (simp add: rsi_at_def)
qed

lemma py_range_0: "py_range 0 (int n) = map int [0..<n]"
  using py_range_nat[of 0 n] by simp

lemma calc_eq:
  assumes ne: "data \<noteq> []"
  shows "calculate_technical_indicators data =
     Inr (map (\<lambda>(i, d). price_point.extend d
                 \<lparr>sma20 = sma20_opt (map close data) i, rsi = rsi14_opt (map close data) i\<rparr>)
            (enumerate 0 data),
          sma20_opt (map close data) (length data - 1),
          rsi14_opt (map close data) (length data - 1))"
proof -
  let ?cs = "map close data"
  let ?n = "length data"
  let ?smas = "map (sma20_at ?cs) (py_range 0 (int (length ?cs)))"
  let ?rsis = "map (rsi14_opt ?cs) [0..<?n]"
  have smas: "?smas = map (sma20_opt ?cs) [0..<?n]"
    by (simp add: py_range_0 sma20_at_eq sma20_opt_def)
  have rsis: "map_res (rsi_at ?cs) (py_range 0 (int (length ?cs))) = Inr ?rsis"
  proof -
    have "map_res (rsi_at ?cs) (map int [0..<?n]) = Inr (map (\<lambda>k. rsi14_opt ?cs (nat k)) (map int [0..<?n]))"
      by (rule map_res_total) (auto simp: rsi_at_eq rsi14_opt_def)
    then show ?thesis by (simp add: py_range_0 comp_def)
  qed
  have rows: "map_res (\<lambda>(i, d).
                        bind_res (py_getitem ?smas (int i)) (\<lambda>s.
                        bind_res (py_getitem ?rsis (int i)) (\<lambda>r.
                        Inr (price_point.extend d \<lparr>sma20 = s, rsi = r\<rparr>))))
                      (enumerate 0 data)
        = Inr (map (\<lambda>(i, d). price_point.extend d
                 \<lparr>sma20 = sma20_opt ?cs i, rsi = rsi14_opt ?cs i\<rparr>) (enumerate 0 data))"
  proof (rule map_res_total)
    fix x assume "x \<in> set (enumerate 0 data)"
    then have "fst x < ?n"
      by (simp only: in_set_enumerate_eq) simp
    then obtain i d where x: "x = (i, d)" and i: "i < ?n"
      by (cases x) simp
    have "py_getitem ?smas (int i) = Inr (sma20_opt ?cs i)"
      unfolding smas using i by (simp add: py_getitem_nat)
    moreover have "py_getitem ?rsis (int i) = Inr (rsi14_opt ?cs i)"
      using i by (simp add: py_getitem_nat)
    ultimately show "(case x of (i, d) \<Rightarrow>
                        bind_res (py_getitem ?smas (int i)) (\<lambda>s.
                        bind_res (py_getitem ?rsis (int i)) (\<lambda>r.
                        Inr (price_point.extend d \<lparr>sma20 = s, rsi = r\<rparr>))))
        = Inr (case x of (i, d) \<Rightarrow> price_point.extend d
                 \<lparr>sma20 = sma20_opt ?cs i, rsi = rsi14_opt ?cs i\<rparr>)"
      unfolding x by (simp only: prod.case bind_res_Inr)
  qed
  have n0: "0 < ?n" using ne by simp
  have lasts: "py_getitem ?smas (- 1) = Inr (sma20_opt ?cs (?n - 1))"
    unfolding smas using n0 py_getitem_last[of "map (sma20_opt ?cs) [0..<?n]"] by simp
  have lastr: "py_getitem ?rsis (- 1) = Inr (rsi14_opt ?cs (?n - 1))"
    using n0 py_getitem_last[of ?rsis] by simp
  show ?thesis
    unfolding calculate_technical_indicators_def Let_def
    by (simp only: ne if_False rsis rows lasts lastr bind_res_Inr)
qed

lemma calc_empty: "calculate_technical_indicators [] = Inr ([], None, None)"
  by (simp add: calculate_technical_indicators_def)

lemma close_series: "map close (series cs) = cs"
proof -
  have "map close (map (\<lambda>(k, c). \<lparr>date = int k, close = c, open_price = c, high = c, low = c, volume = 0\<rparr>)
                 (enumerate n cs)) = cs" for n
    by (induction cs arbitrary: n) simp_all
  then show ?thesis by (simp only: series_def)
qed

lemma length_series: "length (series cs) = length cs"
  by (simp add: series_def)

lemma rows_nth:
  assumes "i < length data"
  shows "map (\<lambda>(i, d). price_point.extend d
                 \<lparr>sma20 = sma20_opt (map close data) i, rsi = rsi14_opt (map close data) i\<rparr>)
            (enumerate 0 data) ! i
         = price_point.extend (data ! i)
                 \<lparr>sma20 = sma20_opt (map close data) i, rsi = rsi14_opt (map close data) i\<rparr>"
  using assms by (simp add: nth_enumerate_eq)

lemma calc_total:
  "\<exists>rows. calculate_technical_indicators data =
       Inr (rows, sma20_opt (map close data) (length data - 1),
                  rsi14_opt (map close data) (length data - 1))
     \<and> length rows = length data
     \<and> (\<forall>i<length data. rows ! i = price_point.extend (data ! i)
                 \<lparr>sma20 = sma20_opt (map close data) i, rsi = rsi14_opt (map close data) i\<rparr>)"
proof (cases "data = []")
  case True
  then show ?thesis by (simp add: calc_empty sma20_opt_def rsi14_opt_def)
next
  case False
  show ?thesis
    by (rule exI, intro conjI, rule calc_eq[OF False]) (simp_all add: nth_enumerate_eq)
qed

lemma sma20_extend [simp]: "sma20 (price_point.extend d \<lparr>sma20 = s, rsi = r\<rparr>) = s"
  by (simp add: price_point.extend_def)

lemma rsi_extend [simp]: "rsi (price_point.extend d \<lparr>sma20 = s, rsi = r\<rparr>) = r"
  by (simp add: price_point.extend_def)

lemma truncate_extend [simp]: "price_point.truncate (price_point.extend d e) = d"
  by (simp add: price_point.extend_def price_point.truncate_def)

lemma fields_extend [simp]:
  "date (price_point.extend d e) = date d"
  "close (price_point.extend d e) = close d"
  "open_price (price_point.extend d e) = open_price d"
  "high (price_point.extend d e) = high d"
  "low (price_point.extend d e) = low d"
  "volume (price_point.extend d e) = volume d"
  by (simp_all add: price_point.extend_def)

lemma rsi14_spec_bounds: "0 \<le> rsi14_spec closes i \<and> rsi14_spec closes i \<le> 100"
proof -
  let ?ds = "map (\<lambda>j. closes ! j - closes ! (j - 1)) [i - 13..<i + 1]"
  let ?g = "mean (map (\<lambda>d. if d > 0 then d else 0) ?ds)"
  let ?l = "mean (map (\<lambda>d. if d < 0 then \<bar>d\<bar> else 0) ?ds)"
  have g: "0 \<le> ?g" unfolding mean_def
    by (intro divide_nonneg_nonneg sum_list_nonneg) auto
  have l: "0 \<le> ?l" unfolding mean_def
    by (intro divide_nonneg_nonneg sum_list_nonneg) auto
  have v: "rsi14_spec closes i = (if ?l = 0 then 100 else 100 - 100 / (1 + ?g / ?l))"
    by (simp only: rsi14_spec_def Let_def)
  show ?thesis
  proof (cases "?l = 0")
    case True
    with v show ?thesis by simp
  next
    case False
    from g l have q: "1 \<le> 1 + ?g / ?l" by simp
    then have "0 \<le> 100 / (1 + ?g / ?l)" by simp
    moreover from q have "100 / (1 + ?g / ?l) \<le> 100"
      by (simp add: divide_le_eq)
    ultimately show ?thesis using v False by simp
  qed
qed

section \<open>Claims about the indicator engine\<close>

text \<open>
  Claim C1. On every series the engine returns one row per input row, and the \<open>rsi\<close> entry
  of row \<open>i\<close> is defined exactly when \<open>i \<ge> 14\<close>. When defined it is the value
  \<open>rsi14_spec\<close> of the specification: from the 14 differences of consecutive closes ending
  at \<open>i\<close>, split into gains and losses, with their means over 14, it is 100 if the mean loss
  is zero (also when the mean gain is zero too) and \<open>100 - 100 / (1 + avg_gain / avg_loss)\<close>
  otherwise.
\<close>

theorem rsi14_defined_from_index_14:
  "\<exists>rows cur_sma cur_rsi.
     calculate_technical_indicators data = Inr (rows, cur_sma, cur_rsi) \<and>
     length rows = length data \<and>
     (\<forall>i<length data.
        (rsi (rows ! i) \<noteq> None \<longleftrightarrow> 14 \<le> i) \<and>
        (14 \<le> i \<longrightarrow> rsi (rows ! i) = Some (rsi14_spec (map close data) i)))"
proof -
  from calc_total[of data] obtain rows where
    c: "calculate_technical_indicators data =
          Inr (rows, sma20_opt (map close data) (length data - 1),
                     rsi14_opt (map close data) (length data - 1))"
    and l: "length rows = length data"
    and r: "\<forall>i<length data. rows ! i = price_point.extend (data ! i)
                 \<lparr>sma20 = sma20_opt (map close data) i, rsi = rsi14_opt (map close data) i\<rparr>"
    by blast
  from r have "\<forall>i<length data.
        (rsi (rows ! i) \<noteq> None \<longleftrightarrow> 14 \<le> i) \<and>
        (14 \<le> i \<longrightarrow> rsi (rows ! i) = Some (rsi14_spec (map close data) i))"
    by (simp add: rsi14_opt_def)
  with c l show ?thesis by blast
qed

theorem rsi14_defined_from_index_14_witness:
  "\<exists>rows cur_sma cur_rsi.
     calculate_technical_indicators (series ramp20) = Inr (rows, cur_sma, cur_rsi) \<and>
     rsi (rows ! 13) = None \<and> rsi (rows ! 14) = Some 100 \<and> rsi (rows ! 19) = Some 100"
proof -
  have n: "length (series ramp20) = 20"
    by (simp add: length_series ramp20_def)
  have v: "rsi14_spec ramp20 14 = 100" "rsi14_spec ramp20 19 = 100"
    by code_simp+
  from rsi14_defined_from_index_14[of "series ramp20"] obtain rows cur_sma cur_rsi where
    c: "calculate_technical_indicators (series ramp20) = Inr (rows, cur_sma, cur_rsi)"
    and r: "\<forall>i<length (series ramp20).
        (rsi (rows ! i) \<noteq> None \<longleftrightarrow> 14 \<le> i) \<and>
        (14 \<le> i \<longrightarrow> rsi (rows ! i) = Some (rsi14_spec (map close (series ramp20)) i))"
    by blast
  from r[rule_format, of 13] n have "rsi (rows ! 13) = None" by simp
  moreover from r[rule_format, of 14] n v have "rsi (rows ! 14) = Some 100"
    by (simp add: close_series)
  moreover from r[rule_format, of 19] n v have "rsi (rows ! 19) = Some 100"
    by (simp add: close_series)
  ultimately show ?thesis using c by blast
qed

text \<open>
  Claim C2. The \<open>sma20\<close> entries are aligned one-to-one with the input: one row per input
  row, the entry of row \<open>i\<close> defined exactly when \<open>i \<ge> 19\<close> and then the arithmetic mean
  of the closes at the indices \<open>i - 19\<close> to \<open>i\<close>. So a series of fewer than 20 points has
  no defined entry, and a series of exactly 20 points has the last entry only, the mean of
  all 20 closes.
\<close>

theorem sma20_aligned_mean_of_20:
  "\<exists>rows cur_sma cur_rsi.
     calculate_technical_indicators data = Inr (rows, cur_sma, cur_rsi) \<and>
     length rows = length data \<and>
     (\<forall>i<length data.
        (sma20 (rows ! i) \<noteq> None \<longleftrightarrow> 19 \<le> i) \<and>
        (19 \<le> i \<longrightarrow> sma20 (rows ! i) = Some (mean (map (\<lambda>j. close (data ! j)) [i - 19..<i + 1])))) \<and>
     (length data < 20 \<longrightarrow> (\<forall>i<length data. sma20 (rows ! i) = None)) \<and>
     (length data = 20 \<longrightarrow> (\<forall>i<19. sma20 (rows ! i) = None) \<and>
                              sma20 (rows ! 19) = Some (mean (map close data)))"
proof -
  from calc_total[of data] obtain rows where
    c: "calculate_technical_indicators data =
          Inr (rows, sma20_opt (map close data) (length data - 1),
                     rsi14_opt (map close data) (length data - 1))"
    and l: "length rows = length data"
    and r: "\<forall>i<length data. rows ! i = price_point.extend (data ! i)
                 \<lparr>sma20 = sma20_opt (map close data) i, rsi = rsi14_opt (map close data) i\<rparr>"
    by blast
  have s: "sma20 (rows ! i) = sma20_opt (map close data) i" if "i < length data" for i
    using r that by simp
  have m: "sma20_spec (map close data) i = mean (map (\<lambda>j. close (data ! j)) [i - 19..<i + 1])"
    if "i < length data" for i
  proof -
    have "map (\<lambda>j. map close data ! j) [i - 19..<i + 1] = map (\<lambda>j. close (data ! j)) [i - 19..<i + 1]"
      using that by (intro map_cong) auto
    then show ?thesis by (simp only: sma20_spec_def)
  qed
  have a: "\<forall>i<length data.
        (sma20 (rows ! i) \<noteq> None \<longleftrightarrow> 19 \<le> i) \<and>
        (19 \<le> i \<longrightarrow> sma20 (rows ! i) = Some (mean (map (\<lambda>j. close (data ! j)) [i - 19..<i + 1])))"
    using s m by (simp add: sma20_opt_def)
  have b: "length data < 20 \<longrightarrow> (\<forall>i<length data. sma20 (rows ! i) = None)"
    using s by (simp add: sma20_opt_def)
  have d: "length data = 20 \<longrightarrow> (\<forall>i<19. sma20 (rows ! i) = None) \<and>
                              sma20 (rows ! 19) = Some (mean (map close data))"
  proof
    assume n: "length data = 20"
    have h19: "(19::nat) < length data" using n by simp
    have "map (\<lambda>j. close (data ! j)) [0..<20] = map close data"
      using n by (intro nth_equalityI) simp_all
    moreover have "[19 - 19..<19 + 1] = [0..<20::nat]" by simp
    ultimately have k: "map (\<lambda>j. close (data ! j)) [19 - 19..<19 + 1] = map close data"
      by (simp only:)
    from a[rule_format, OF h19]
    have "sma20 (rows ! 19) = Some (mean (map (\<lambda>j. close (data ! j)) [19 - 19..<19 + 1]))"
      by (blast intro: order_refl)
    then have "sma20 (rows ! 19) = Some (mean (map close data))"
      by (simp only: k)
    moreover have "\<forall>i<19. sma20 (rows ! i) = None"
    proof (intro allI impI)
      fix i :: nat assume "i < 19"
      with a[rule_format, of i] n show "sma20 (rows ! i) = None" by simp
    qed
    ultimately show "(\<forall>i<19. sma20 (rows ! i) = None) \<and>
                              sma20 (rows ! 19) = Some (mean (map close data))" by blast
  qed
  from c l a b d show ?thesis by blast
qed

theorem sma20_aligned_mean_of_20_witness:
  "\<exists>rows cur_sma cur_rsi.
     calculate_technical_indicators (series ramp20) = Inr (rows, cur_sma, cur_rsi) \<and>
     length rows = 20 \<and> sma20 (rows ! 18) = None \<and> sma20 (rows ! 19) = Some (21 / 2)"
proof -
  have n: "length (series ramp20) = 20"
    by (simp add: length_series ramp20_def)
  have v: "mean ramp20 = 21 / 2"
    by (simp add: ramp20_def mean_def)
  from sma20_aligned_mean_of_20[of "series ramp20"] obtain rows cur_sma cur_rsi where
    c: "calculate_technical_indicators (series ramp20) = Inr (rows, cur_sma, cur_rsi)"
    and l: "length rows = length (series ramp20)"
    and r: "length (series ramp20) = 20 \<longrightarrow> (\<forall>i<19. sma20 (rows ! i) = None) \<and>
                              sma20 (rows ! 19) = Some (mean (map close (series ramp20)))"
    by blast
  from r n v have "sma20 (rows ! 18) = None" "sma20 (rows ! 19) = Some (21 / 2)"
    by (simp_all add: close_series)
  with c l n show ?thesis by auto
qed

text \<open>
  Claim C3. The indicator computation never raises: on every series, the empty one and the
  short ones included, it returns normally, with every \<open>sma20\<close> entry undefined when the
  series has fewer than 20 points and every \<open>rsi\<close> entry undefined when it has fewer
  than 15.
\<close>

theorem calculate_technical_indicators_never_raises:
  "\<exists>rows cur_sma cur_rsi.
     calculate_technical_indicators data = Inr (rows, cur_sma, cur_rsi) \<and>
     length rows = length data \<and>
     (length data < 20 \<longrightarrow> (\<forall>row\<in>set rows. sma20 row = None) \<and> cur_sma = None) \<and>
     (length data < 15 \<longrightarrow> (\<forall>row\<in>set rows. rsi row = None) \<and> cur_rsi = None)"
proof -
  from calc_total[of data] obtain rows where
    c: "calculate_technical_indicators data =
          Inr (rows, sma20_opt (map close data) (length data - 1),
                     rsi14_opt (map close data) (length data - 1))"
    and l: "length rows = length data"
    and r: "\<forall>i<length data. rows ! i = price_point.extend (data ! i)
                 \<lparr>sma20 = sma20_opt (map close data) i, rsi = rsi14_opt (map close data) i\<rparr>"
    by blast
  have s: "length data < 20 \<longrightarrow> (\<forall>row\<in>set rows. sma20 row = None) \<and>
             sma20_opt (map close data) (length data - 1) = None"
  proof
    assume n: "length data < 20"
    have "sma20 row = None" if "row \<in> set rows" for row
    proof -
      from that l obtain i where "i < length data" "row = rows ! i"
        by (auto simp: in_set_conv_nth)
      with r n show ?thesis by (simp add: sma20_opt_def)
    qed
    with n show "(\<forall>row\<in>set rows. sma20 row = None) \<and>
             sma20_opt (map close data) (length data - 1) = None"
      by (simp add: sma20_opt_def)
  qed
  have t: "length data < 15 \<longrightarrow> (\<forall>row\<in>set rows. rsi row = None) \<and>
             rsi14_opt (map close data) (length data - 1) = None"
  proof
    assume n: "length data < 15"
    have "rsi row = None" if "row \<in> set rows" for row
    proof -
      from that l obtain i where "i < length data" "row = rows ! i"
        by (auto simp: in_set_conv_nth)
      with r n show ?thesis by (simp add: rsi14_opt_def)
    qed
    with n show "(\<forall>row\<in>set rows. rsi row = None) \<and>
             rsi14_opt (map close data) (length data - 1) = None"
      by (simp add: rsi14_opt_def)
  qed
  from c l s t show ?thesis by blast
qed

theorem calculate_technical_indicators_never_raises_witness:
  "(\<exists>rows. calculate_technical_indicators [] = Inr (rows, None, None) \<and> length rows = 0) \<and>
   (\<exists>rows. calculate_technical_indicators (series [3, 4, 5]) = Inr (rows, None, None) \<and>
      length rows = 3 \<and> (\<forall>row\<in>set rows. sma20 row = None \<and> rsi row = None))"
proof -
  have n: "length (series [3, 4, 5]) = 3" "length ([] :: price_point list) = 0"
    by (simp_all add: length_series)
  from calculate_technical_indicators_never_raises[of "[]"] n(2)
  have a: "\<exists>rows. calculate_technical_indicators [] = Inr (rows, None, None) \<and> length rows = 0"
    by auto
  from calculate_technical_indicators_never_raises[of "series [3, 4, 5]"] n(1)
  have b: "\<exists>rows. calculate_technical_indicators (series [3, 4, 5]) = Inr (rows, None, None) \<and>
      length rows = 3 \<and> (\<forall>row\<in>set rows. sma20 row = None \<and> rsi row = None)"
    by auto
  from a b show ?thesis by blast
qed

text \<open>
  Claim C4. Every defined \<open>rsi\<close> value, in a row or returned as the current one, lies in
  the closed interval from 0 to 100.
\<close>

theorem rsi_between_0_and_100:
  "\<exists>rows cur_sma cur_rsi.
     calculate_technical_indicators data = Inr (rows, cur_sma, cur_rsi) \<and>
     (\<forall>i<length rows. \<forall>v. rsi (rows ! i) = Some v \<longrightarrow> 0 \<le> v \<and> v \<le> 100) \<and>
     (\<forall>v. cur_rsi = Some v \<longrightarrow> 0 \<le> v \<and> v \<le> 100)"
proof -
  from calc_total[of data] obtain rows where
    c: "calculate_technical_indicators data =
          Inr (rows, sma20_opt (map close data) (length data - 1),
                     rsi14_opt (map close data) (length data - 1))"
    and l: "length rows = length data"
    and r: "\<forall>i<length data. rows ! i = price_point.extend (data ! i)
                 \<lparr>sma20 = sma20_opt (map close data) i, rsi = rsi14_opt (map close data) i\<rparr>"
    by blast
  have b: "0 \<le> v \<and> v \<le> 100" if "rsi14_opt (map close data) i = Some v" for i v
    using that rsi14_spec_bounds[of "map close data" i]
    by (auto simp: rsi14_opt_def split: if_splits)
  have "\<forall>i<length rows. \<forall>v. rsi (rows ! i) = Some v \<longrightarrow> 0 \<le> v \<and> v \<le> 100"
    using r l b by simp
  moreover have "\<forall>v. rsi14_opt (map close data) (length data - 1) = Some v \<longrightarrow> 0 \<le> v \<and> v \<le> 100"
    using b by blast
  ultimately show ?thesis using c by blast
qed

theorem rsi_between_0_and_100_witness:
  "\<exists>rows cur_sma.
     calculate_technical_indicators (series zigzag16) = Inr (rows, cur_sma, Some (750 / 11)) \<and>
     rsi (rows ! 15) = Some (750 / 11) \<and> (0::real) \<le> 750 / 11 \<and> (750 / 11 :: real) \<le> 100"
proof -
  have n: "length (series zigzag16) = 16"
    by (simp add: length_series zigzag16_def)
  have v: "rsi14_spec zigzag16 15 = 750 / 11"
    by code_simp
  from calc_total[of "series zigzag16"] obtain rows where
    c: "calculate_technical_indicators (series zigzag16) =
          Inr (rows, sma20_opt zigzag16 15, rsi14_opt zigzag16 15)"
    and l: "length rows = 16"
    and r: "rsi (rows ! 15) = rsi14_opt zigzag16 15"
    using n by (auto simp: close_series)
  from rsi_between_0_and_100[of "series zigzag16"] c
  have "\<forall>v. rsi14_opt zigzag16 15 = Some v \<longrightarrow> 0 \<le> v \<and> v \<le> 100"
    by auto
  with v have "(0::real) \<le> 750 / 11 \<and> (750 / 11 :: real) \<le> 100"
    by (simp add: rsi14_opt_def)
  with c r v show ?thesis by (simp add: rsi14_opt_def)
qed

text \<open>
  Claim C9. The engine returns one row per input row, in the same order, and each row is the
  input row with its date, open, high, low, close and volume unchanged, extended by the two
  fields \<open>sma20\<close> and \<open>rsi\<close>.
\<close>

theorem indicators_leave_price_fields_unchanged:
  "\<exists>rows cur_sma cur_rsi.
     calculate_technical_indicators data = Inr (rows, cur_sma, cur_rsi) \<and>
     length rows = length data \<and>
     map price_point.truncate rows = data \<and>
     (\<forall>i<length data.
        date (rows ! i) = date (data ! i) \<and> open_price (rows ! i) = open_price (data ! i) \<and>
        high (rows ! i) = high (data ! i) \<and> low (rows ! i) = low (data ! i) \<and>
        close (rows ! i) = close (data ! i) \<and> volume (rows ! i) = volume (data ! i))"
proof -
  from calc_total[of data] obtain rows where
    c: "calculate_technical_indicators data =
          Inr (rows, sma20_opt (map close data) (length data - 1),
                     rsi14_opt (map close data) (length data - 1))"
    and l: "length rows = length data"
    and r: "\<forall>i<length data. rows ! i = price_point.extend (data ! i)
                 \<lparr>sma20 = sma20_opt (map close data) i, rsi = rsi14_opt (map close data) i\<rparr>"
    by blast
  have "map price_point.truncate rows = data"
    using l r by (intro nth_equalityI) simp_all
  moreover have "\<forall>i<length data.
        date (rows ! i) = date (data ! i) \<and> open_price (rows ! i) = open_price (data ! i) \<and>
        high (rows ! i) = high (data ! i) \<and> low (rows ! i) = low (data ! i) \<and>
        close (rows ! i) = close (data ! i) \<and> volume (rows ! i) = volume (data ! i)"
    using r by simp
  ultimately show ?thesis using c l by blast
qed

theorem indicators_leave_price_fields_unchanged_witness:
  "\<exists>rows cur_sma cur_rsi.
     calculate_technical_indicators (series [3, 4, 5]) = Inr (rows, cur_sma, cur_rsi) \<and>
     length rows = 3 \<and> map price_point.truncate rows = series [3, 4, 5] \<and>
     date (rows ! 1) = 1 \<and> close (rows ! 1) = 4 \<and> volume (rows ! 1) = 0"
proof -
  have n: "length (series [3, 4, 5]) = 3"
    by (simp add: length_series)
  have e: "date (series [3, 4, 5] ! 1) = 1" "close (series [3, 4, 5] ! 1) = 4"
    "volume (series [3, 4, 5] ! 1) = 0"
    by (simp_all add: series_def)
  from indicators_leave_price_fields_unchanged[of "series [3, 4, 5]"]
  obtain rows cur_sma cur_rsi where
    c: "calculate_technical_indicators (series [3, 4, 5]) = Inr (rows, cur_sma, cur_rsi)"
    and l: "length rows = length (series [3, 4, 5])"
    and t: "map price_point.truncate rows = series [3, 4, 5]"
    and f: "\<forall>i<length (series [3, 4, 5]).
        date (rows ! i) = date (series [3, 4, 5] ! i) \<and> open_price (rows ! i) = open_price (series [3, 4, 5] ! i) \<and>
        high (rows ! i) = high (series [3, 4, 5] ! i) \<and> low (rows ! i) = low (series [3, 4, 5] ! i) \<and>
        close (rows ! i) = close (series [3, 4, 5] ! i) \<and> volume (rows ! i) = volume (series [3, 4, 5] ! i)"
    by blast
  from f[rule_format, of 1] n e
  have "date (rows ! 1) = 1 \<and> close (rows ! 1) = 4 \<and> volume (rows ! 1) = 0"
    by simp
  with c l n t show ?thesis by auto
qed

section \<open>The pie chart counts\<close>

lemma count_ones: "sum_list (map (\<lambda>d. 1::nat) xs) = length xs"
  by (induction xs) simp_all

text \<open>
  Claim C10. The two SMA counts of the pie chart are the numbers of rows passing the tests
  \<open>is_above_sma\<close> and \<open>is_below_sma\<close>. A row with a defined \<open>sma20\<close> passes exactly one
  of them, a row whose close equals its \<open>sma20\<close> passes the below test (which is
  \<open>close \<le> sma20\<close>), and a row without \<open>sma20\<close> passes neither; so the two counts add up
  to the number of rows with a defined \<open>sma20\<close>.
\<close>

theorem sma_buckets_partition_defined_rows:
  "above_sma data = length (filter is_above_sma data) \<and>
   below_sma data = length (filter is_below_sma data) \<and>
   above_sma data + below_sma data = length (filter (\<lambda>d. sma20 d \<noteq> None) data) \<and>
   (\<forall>d s. sma20 d = Some s \<longrightarrow>
      (is_above_sma d \<longleftrightarrow> \<not> is_below_sma d) \<and>
      (is_below_sma d \<longleftrightarrow> close d \<le> s) \<and>
      (close d = s \<longrightarrow> is_below_sma d \<and> \<not> is_above_sma d)) \<and>
   (\<forall>d. sma20 d = None \<longrightarrow> \<not> is_above_sma d \<and> \<not> is_below_sma d)"
proof -
  have a: "above_sma data = length (filter is_above_sma data)"
    unfolding above_sma_def by (rule count_ones)
  have b: "below_sma data = length (filter is_below_sma data)"
    unfolding below_sma_def by (rule count_ones)
  have "length (filter is_above_sma xs) + length (filter is_below_sma xs)
        = length (filter (\<lambda>d. sma20 d \<noteq> None) xs)" for xs
    by (induction xs) (auto simp: is_above_sma_def is_below_sma_def split: option.splits)
  with a b have c: "above_sma data + below_sma data = length (filter (\<lambda>d. sma20 d \<noteq> None) data)"
    by simp
  have d: "\<forall>d s. sma20 d = Some s \<longrightarrow>
      (is_above_sma d \<longleftrightarrow> \<not> is_below_sma d) \<and>
      (is_below_sma d \<longleftrightarrow> close d \<le> s) \<and>
      (close d = s \<longrightarrow> is_below_sma d \<and> \<not> is_above_sma d)"
    by (auto simp: is_above_sma_def is_below_sma_def)
  have e: "\<forall>d. sma20 d = None \<longrightarrow> \<not> is_above_sma d \<and> \<not> is_below_sma d"
    by (simp add: is_above_sma_def is_below_sma_def)
  from a b c d e show ?thesis by blast
qed

theorem sma_buckets_partition_defined_rows_witness:
  "above_sma [row_with 5 None, row_with 5 (Some 5), row_with 6 (Some 5), row_with 4 (Some 5)] = 1 \<and>
   below_sma [row_with 5 None, row_with 5 (Some 5), row_with 6 (Some 5), row_with 4 (Some 5)] = 2 \<and>
   is_below_sma (row_with 5 (Some 5)) \<and> \<not> is_above_sma (row_with 5 (Some 5))"
proof -
  let ?rows = "[row_with 5 None, row_with 5 (Some 5), row_with 6 (Some 5), row_with 4 (Some 5)]"
  have s: "sma20 (row_with 5 (Some 5)) = Some 5" "close (row_with 5 (Some 5)) = 5"
    by (simp_all add: row_with_def)
  have f: "filter is_above_sma ?rows = [row_with 6 (Some 5)]"
    "filter is_below_sma ?rows = [row_with 5 (Some 5), row_with 4 (Some 5)]"
    by (simp_all add: is_above_sma_def is_below_sma_def row_with_def)
  from sma_buckets_partition_defined_rows[of ?rows] f
  have "above_sma ?rows = 1" "below_sma ?rows = 2" by simp_all
  moreover from sma_buckets_partition_defined_rows[of ?rows] s
  have "is_below_sma (row_with 5 (Some 5)) \<and> \<not> is_above_sma (row_with 5 (Some 5))"
    by blast
  ultimately show ?thesis by blast
qed

section \<open>Claims about the analyzer\<close>

lemma py_strip_empty_iff: "py_strip t = [] \<longleftrightarrow> (\<forall>c\<in>set t. py_isspace c)"
proof
  assume "py_strip t = []"
  then have "\<forall>c\<in>set (dropWhile py_isspace t). py_isspace c"
    by (simp add: py_strip_def dropWhile_eq_Nil_conv)
  then have "dropWhile py_isspace t = []"
    using hd_dropWhile[of py_isspace t] hd_in_set[of "dropWhile py_isspace t"] by blast
  then show "\<forall>c\<in>set t. py_isspace c"
    by (simp add: dropWhile_eq_Nil_conv)
next
  assume "\<forall>c\<in>set t. py_isspace c"
  then show "py_strip t = []"
    by (auto simp: py_strip_def dest: set_dropWhileD)
qed

lemma error_msg_text:
  "error_msg = ''Invalid input: Please provide a valid ticker and timeframe (1D, 5D, 1M, 3M, 1Y, 5Y, YTD, Max).''"
  by (simp add: error_msg_def valid_timeframes_def)

lemma error_msg_names: "\<forall>tf\<in>set valid_timeframes. sublist tf error_msg"
  unfolding error_msg_text valid_timeframes_def
  by code_simp

lemma invalid_input_cases:
  "invalid_input ticker timeframe \<longleftrightarrow>
     \<not> is_str ticker \<or> (\<forall>c\<in>set (the_str ticker). py_isspace c) \<or>
     timeframe \<notin> PyStr ` set valid_timeframes"
  by (cases ticker) (auto simp: invalid_input_def py_strip_empty_iff)

text \<open>
  Claim C6. If the ticker is not a string, is empty or consists of whitespace only, or the
  timeframe is not one of the eight accepted names, \<open>analyze_stock\<close> returns no summary, no
  rows and the validation message, which names all eight timeframes, and calls the provider
  not at all.
\<close>

theorem invalid_input_gives_validation_error_and_no_fetch:
  assumes "\<not> is_str ticker \<or> ticker = PyStr [] \<or> (\<exists>t. ticker = PyStr t \<and> (\<forall>c\<in>set t. py_isspace c)) \<or>
           timeframe \<notin> PyStr ` set valid_timeframes"
  shows "analyze_stock env ticker timeframe = Inr ((None, None, Some error_msg), []) \<and>
         error_msg = ''Invalid input: Please provide a valid ticker and timeframe (1D, 5D, 1M, 3M, 1Y, 5Y, YTD, Max).'' \<and>
         length valid_timeframes = 8 \<and> distinct valid_timeframes \<and>
         (\<forall>tf\<in>set valid_timeframes. sublist tf error_msg)"
proof -
  from assms have "invalid_input ticker timeframe"
    unfolding invalid_input_cases by auto
  then have "analyze_stock env ticker timeframe = Inr ((None, None, Some error_msg), [])"
    by (simp add: analyze_stock_def)
  moreover have "length valid_timeframes = 8 \<and> distinct valid_timeframes"
    by (simp add: valid_timeframes_def)
  ultimately show ?thesis using error_msg_text error_msg_names by blast
qed

theorem invalid_input_gives_validation_error_and_no_fetch_witness:
  "analyze_stock (provider_of (Inr (series ramp20))) (PyStr ''AAPL'') (PyStr ''2W'')
     = Inr ((None, None, Some error_msg), []) \<and>
   analyze_stock (provider_of (Inr (series ramp20))) (PyStr ''  '') (PyStr ''1M'')
     = Inr ((None, None, Some error_msg), []) \<and>
   analyze_stock (provider_of (Inr (series ramp20))) PyNone (PyStr ''1M'')
     = Inr ((None, None, Some error_msg), [])"
proof -
  have a: "PyStr ''2W'' \<notin> PyStr ` set valid_timeframes"
    by (simp add: valid_timeframes_def)
  have b: "\<exists>t. PyStr ''  '' = PyStr t \<and> (\<forall>c\<in>set t. py_isspace c)"
    by (simp add: py_isspace_def)
  have c: "\<not> is_str PyNone" by simp
  from invalid_input_gives_validation_error_and_no_fetch[of "PyStr ''AAPL''" "PyStr ''2W''"] a
    invalid_input_gives_validation_error_and_no_fetch[of "PyStr ''  ''" "PyStr ''1M''"] b
    invalid_input_gives_validation_error_and_no_fetch[of PyNone "PyStr ''1M''"] c
  show ?thesis by blast
qed

lemma bind_res_Inr_iff: "bind_res m f = Inr y \<longleftrightarrow> (\<exists>x. m = Inr x \<and> f x = Inr y)"
  by (cases m) simp_all

lemma get_stock_data_cases:
  "(\<exists>msg calls. get_stock_data env t tf = ((None, Some msg), calls) \<and> msg \<noteq> []) \<or>
   (\<exists>p df. history env t p = Inr df \<and> df \<noteq> [] \<and>
       get_stock_data env t tf = ((Some (sort_key date df), None), [History t p]))"
  unfolding get_stock_data_def Let_def
  by (auto split: option.splits sum.splits)

lemma get_stock_data_failure:
  assumes "\<forall>t' p. History t' p \<in> set (snd (get_stock_data env t tf)) \<longrightarrow>
             (\<exists>msg. history env t' p = Inl msg) \<or> history env t' p = Inr []"
  shows "\<exists>msg calls. get_stock_data env t tf = ((None, Some msg), calls) \<and> msg \<noteq> []"
proof -
  from get_stock_data_cases[of env t tf] show ?thesis
  proof
    assume "\<exists>msg calls. get_stock_data env t tf = ((None, Some msg), calls) \<and> msg \<noteq> []"
    then show ?thesis .
  next
    assume "\<exists>p df. history env t p = Inr df \<and> df \<noteq> [] \<and>
       get_stock_data env t tf = ((Some (sort_key date df), None), [History t p])"
    then obtain p df where h: "history env t p = Inr df" and ne: "df \<noteq> []"
      and g: "get_stock_data env t tf = ((Some (sort_key date df), None), [History t p])"
      by blast
    from g have "History t p \<in> set (snd (get_stock_data env t tf))" by simp
    with assms have "(\<exists>msg. history env t p = Inl msg) \<or> history env t p = Inr []"
      by blast
    with h ne show ?thesis by auto
  qed
qed

text \<open>
  Claim C7. For a valid ticker and timeframe, if every request that \<open>get_stock_data\<close>
  makes to the provider fails or delivers no rows, \<open>analyze_stock\<close> raises nothing and
  returns no summary, no rows and a non-empty error message, after exactly those requests.
  Nothing is assumed of the provider at a period that is not requested.
\<close>

theorem failed_or_empty_fetch_gives_error_triple:
  assumes "\<not> invalid_input ticker timeframe"
      and "\<forall>t p. History t p \<in> set (snd (get_stock_data env (the_str ticker) (the_str timeframe)))
                 \<longrightarrow> (\<exists>msg. history env t p = Inl msg) \<or> history env t p = Inr []"
  shows "\<exists>msg. analyze_stock env ticker timeframe =
                 Inr ((None, None, Some msg),
                      snd (get_stock_data env (the_str ticker) (the_str timeframe))) \<and>
               msg \<noteq> []"
proof -
  from get_stock_data_failure[OF assms(2)] obtain msg calls where
    g: "get_stock_data env (the_str ticker) (the_str timeframe) = ((None, Some msg), calls)"
    and m: "msg \<noteq> []"
    by blast
  from assms(1) g m
  have "analyze_stock env ticker timeframe = Inr ((None, None, Some msg), calls)"
    by (simp add: analyze_stock_def)
  with g m show ?thesis by auto
qed

theorem failed_or_empty_fetch_gives_error_triple_witness:
  "snd (get_stock_data provider_empty_range ''AAPL'' ''1M'')
     = [History ''AAPL'' (Period (970 * 86400000000) (1000 * 86400000000))] \<and>
   history provider_empty_range ''AAPL'' (Period (970 * 86400000000) (1000 * 86400000000)) = Inr [] \<and>
   history provider_empty_range ''AAPL'' PeriodMax = Inr unsorted5 \<and>
   (\<exists>msg. analyze_stock provider_empty_range (PyStr ''AAPL'') (PyStr ''1M'')
        = Inr ((None, None, Some msg),
               [History ''AAPL'' (Period (970 * 86400000000) (1000 * 86400000000))]) \<and>
          msg \<noteq> []) \<and>
   snd (get_stock_data (provider_of (Inl ''timed out'')) ''AAPL'' ''Max'')
     = [History ''AAPL'' PeriodMax] \<and>
   (\<exists>msg. analyze_stock (provider_of (Inl ''timed out'')) (PyStr ''AAPL'') (PyStr ''Max'')
        = Inr ((None, None, Some msg), [History ''AAPL'' PeriodMax]) \<and> msg \<noteq> [])"
proof -
  have v: "\<not> invalid_input (PyStr ''AAPL'') (PyStr ''1M'')"
          "\<not> invalid_input (PyStr ''AAPL'') (PyStr ''Max'')"
    by (simp_all add: invalid_input_cases valid_timeframes_def py_isspace_def)
  have c1: "snd (get_stock_data provider_empty_range ''AAPL'' ''1M'')
     = [History ''AAPL'' (Period (970 * 86400000000) (1000 * 86400000000))]"
    by (simp add: get_stock_data_def provider_empty_range_def timeframes_def timedelta_days_def)
  have c2: "snd (get_stock_data (provider_of (Inl ''timed out'')) ''AAPL'' ''Max'')
     = [History ''AAPL'' PeriodMax]"
    by (simp add: get_stock_data_def provider_of_def timeframes_def timedelta_days_def)
  have e1: "history provider_empty_range ''AAPL'' (Period (970 * 86400000000) (1000 * 86400000000)) = Inr []"
    and e2: "history provider_empty_range ''AAPL'' PeriodMax = Inr unsorted5"
    by (simp_all add: provider_empty_range_def)
  have h1: "\<forall>t p. History t p \<in> set (snd (get_stock_data provider_empty_range
                    (the_str (PyStr ''AAPL'')) (the_str (PyStr ''1M''))))
                 \<longrightarrow> (\<exists>msg. history provider_empty_range t p = Inl msg) \<or>
                     history provider_empty_range t p = Inr []"
    using c1 e1 by (simp add: provider_empty_range_def)
  have h2: "\<forall>t p. History t p \<in> set (snd (get_stock_data (provider_of (Inl ''timed out''))
                    (the_str (PyStr ''AAPL'')) (the_str (PyStr ''Max''))))
                 \<longrightarrow> (\<exists>msg. history (provider_of (Inl ''timed out'')) t p = Inl msg) \<or>
                     history (provider_of (Inl ''timed out'')) t p = Inr []"
    by (simp add: provider_of_def)
  from failed_or_empty_fetch_gives_error_triple[OF v(1) h1] c1
  have a: "\<exists>msg. analyze_stock provider_empty_range (PyStr ''AAPL'') (PyStr ''1M'')
        = Inr ((None, None, Some msg),
               [History ''AAPL'' (Period (970 * 86400000000) (1000 * 86400000000))]) \<and>
          msg \<noteq> []"
    by simp
  from failed_or_empty_fetch_gives_error_triple[OF v(2) h2] c2
  have b: "\<exists>msg. analyze_stock (provider_of (Inl ''timed out'')) (PyStr ''AAPL'') (PyStr ''Max'')
        = Inr ((None, None, Some msg), [History ''AAPL'' PeriodMax]) \<and> msg \<noteq> []"
    by simp
  from c1 e1 e2 a c2 b show ?thesis by blast
qed

lemma foldl_greater_Max:
  fixes x :: real
  shows "foldl (\<lambda>m y. if y > m then y else m) x xs = Max (set (x # xs))"
proof -
  have "(\<lambda>y m. if y > m then y else m) = (max :: real \<Rightarrow> real \<Rightarrow> real)"
    by (auto simp: fun_eq_iff max_def)
  then show ?thesis
    by (simp only: Max.set_eq_fold foldl_conv_fold)
qed

lemma foldl_less_Min:
  fixes x :: real
  shows "foldl (\<lambda>m y. if y < m then y else m) x xs = Min (set (x # xs))"
proof -
  have "(\<lambda>y m. if y < m then y else m) = (min :: real \<Rightarrow> real \<Rightarrow> real)"
    by (auto simp: fun_eq_iff min_def)
  then show ?thesis
    by (simp only: Min.set_eq_fold foldl_conv_fold)
qed

lemma py_max_Inr: "py_max xs = Inr m \<longleftrightarrow> xs \<noteq> [] \<and> m = Max (set xs)"
  by (cases xs) (auto simp: py_max_def foldl_greater_Max simp del: foldl_Cons set_simps)

lemma py_min_Inr: "py_min xs = Inr m \<longleftrightarrow> xs \<noteq> [] \<and> m = Min (set xs)"
  by (cases xs) (auto simp: py_min_def foldl_less_Min simp del: foldl_Cons set_simps)

lemma py_next_first:
  assumes "py_next (map f (filter P xs)) = Inr y"
  shows "\<exists>k<length xs. P (xs ! k) \<and> (\<forall>j<k. \<not> P (xs ! j)) \<and> y = f (xs ! k)"
proof -
  from assms obtain z zs where fz: "filter P xs = z # zs" and y: "y = f z"
    by (cases "filter P xs") (simp_all add: py_next_def)
  from fz obtain us vs where xs: "xs = us @ z # vs" and us: "\<forall>u\<in>set us. \<not> P u" and z: "P z"
    by (auto simp: filter_eq_Cons_iff)
  have "length us < length xs" using xs by simp
  moreover have "xs ! length us = z" using xs by simp
  moreover have "\<forall>j<length us. \<not> P (xs ! j)"
    using xs us by (simp add: nth_append)
  ultimately show ?thesis using z y by blast
qed

lemma py_next_total:
  assumes "\<exists>x\<in>set xs. P x"
  shows "\<exists>y. py_next (map f (filter P xs)) = Inr y"
proof -
  from assms have "filter P xs \<noteq> []" by (simp add: filter_empty_conv)
  then show ?thesis by (cases "filter P xs") (simp_all add: py_next_def)
qed

lemma derive_summary_Inr:
  assumes "derive_summary rows cs cr = Inr s"
  shows "rows \<noteq> []"
    and "current_price s = close (last rows)"
    and "highest_peak s = Max (set (map close rows))"
    and "lowest_peak s = Min (set (map close rows))"
    and "\<exists>k<length rows. close (rows ! k) = highest_peak s \<and>
            (\<forall>j<k. close (rows ! j) \<noteq> highest_peak s) \<and> highest_peak_date s = date (rows ! k)"
    and "\<exists>k<length rows. close (rows ! k) = lowest_peak s \<and>
            (\<forall>j<k. close (rows ! j) \<noteq> lowest_peak s) \<and> lowest_peak_date s = date (rows ! k)"
    and "current_sma20 s = cs"
    and "current_rsi s = cr"
    and "trend s = trend_of cs (close (last rows))"
proof -
  from assms obtain last_row hi lo hd ld pct rets where
    g: "py_getitem rows (- 1) = Inr last_row"
    and hi: "py_max (map close rows) = Inr hi"
    and lo: "py_min (map close rows) = Inr lo"
    and hd: "py_next (map date (filter (\<lambda>d. close d = hi) rows)) = Inr hd"
    and ld: "py_next (map date (filter (\<lambda>d. close d = lo) rows)) = Inr ld"
    and s: "s = \<lparr>current_price = close last_row, highest_peak = hi, lowest_peak = lo,
             highest_peak_date = hd, lowest_peak_date = ld,
             price_change_pct = pct, returns = rets,
             current_sma20 = cs, current_rsi = cr,
             trend = trend_of cs (close last_row)\<rparr>"
    unfolding derive_summary_def Let_def bind_res_Inr_iff by blast
  from hi show ne: "rows \<noteq> []" by (auto simp: py_max_Inr)
  from g ne have lr: "last_row = last rows"
    by (simp add: py_getitem_last last_conv_nth)
  from s lr show "current_price s = close (last rows)" by simp
  from s hi show "highest_peak s = Max (set (map close rows))" by (simp add: py_max_Inr)
  from s lo show "lowest_peak s = Min (set (map close rows))" by (simp add: py_min_Inr)
  from py_next_first[OF hd] s
  show "\<exists>k<length rows. close (rows ! k) = highest_peak s \<and>
            (\<forall>j<k. close (rows ! j) \<noteq> highest_peak s) \<and> highest_peak_date s = date (rows ! k)"
    by simp
  from py_next_first[OF ld] s
  show "\<exists>k<length rows. close (rows ! k) = lowest_peak s \<and>
            (\<forall>j<k. close (rows ! j) \<noteq> lowest_peak s) \<and> lowest_peak_date s = date (rows ! k)"
    by simp
  from s show "current_sma20 s = cs" "current_rsi s = cr" by simp_all
  from s lr show "trend s = trend_of cs (close (last rows))" by simp
qed

lemma analyze_stock_report:
  assumes "analyze_stock env ticker timeframe = Inr ((Some s, orows, e), calls)"
  shows "\<exists>p df rows cs cr.
           history env (the_str ticker) p = Inr df \<and> df \<noteq> [] \<and>
           calculate_technical_indicators (sort_key date df) = Inr (rows, cs, cr) \<and>
           derive_summary rows cs cr = Inr s \<and> orows = Some rows \<and> e = None \<and>
           calls = [History (the_str ticker) p]"
proof -
  from assms have v: "\<not> invalid_input ticker timeframe"
    by (auto simp: analyze_stock_def split: if_splits)
  from get_stock_data_cases[of env "the_str ticker" "the_str timeframe"]
  show ?thesis
  proof (elim disjE exE conjE)
    fix msg cl
    assume "get_stock_data env (the_str ticker) (the_str timeframe) = ((None, Some msg), cl)"
      and "msg \<noteq> []"
    with assms v show ?thesis by (simp add: analyze_stock_def)
  next
    fix p df
    assume h: "history env (the_str ticker) p = Inr df" and ne: "df \<noteq> []"
      and g: "get_stock_data env (the_str ticker) (the_str timeframe)
              = ((Some (sort_key date df), None), [History (the_str ticker) p])"
    have sne: "sort_key date df \<noteq> []" using ne by (cases df) simp_all
    from assms v g sne
    have "bind_res (calculate_technical_indicators (sort_key date df)) (\<lambda>(rows, cur_sma20, cur_rsi).
              bind_res (derive_summary rows cur_sma20 cur_rsi) (\<lambda>s.
              Inr ((Some s, Some rows, None), [History (the_str ticker) p])))
          = Inr ((Some s, orows, e), calls)"
      by (simp add: analyze_stock_def)
    then obtain rows cs cr where
      c: "calculate_technical_indicators (sort_key date df) = Inr (rows, cs, cr)"
      and d: "bind_res (derive_summary rows cs cr) (\<lambda>s.
              Inr ((Some s, Some rows, None), [History (the_str ticker) p]))
              = Inr ((Some s, orows, e), calls)"
      unfolding bind_res_Inr_iff[of "calculate_technical_indicators (sort_key date df)"]
      by auto
    from d have "derive_summary rows cs cr = Inr s \<and> orows = Some rows \<and> e = None \<and>
           calls = [History (the_str ticker) p]"
      unfolding bind_res_Inr_iff by auto
    with h ne c show ?thesis by blast
  qed
qed

lemma calc_rows:
  assumes "calculate_technical_indicators data = Inr (rows, cs, cr)"
  shows "length rows = length data"
    and "map close rows = map close data"
    and "map date rows = map date data"
    and "data \<noteq> [] \<Longrightarrow> cs = sma20 (last rows)"
    and "\<And>i. i < length data \<Longrightarrow> sma20 (rows ! i) = sma20_opt (map close data) i"
proof -
  from calc_total[of data] assms have
    l: "length rows = length data"
    and c: "cs = sma20_opt (map close data) (length data - 1)"
    and r: "\<forall>i<length data. rows ! i = price_point.extend (data ! i)
                 \<lparr>sma20 = sma20_opt (map close data) i, rsi = rsi14_opt (map close data) i\<rparr>"
    by auto
  show "length rows = length data" by (rule l)
  show "map close rows = map close data"
    using l r by (intro nth_equalityI) simp_all
  show "map date rows = map date data"
    using l r by (intro nth_equalityI) simp_all
  show "sma20 (rows ! i) = sma20_opt (map close data) i" if "i < length data" for i
    using r that by simp
  show "cs = sma20 (last rows)" if "data \<noteq> []"
  proof -
    from that l have "rows \<noteq> []" by auto
    then have "last rows = rows ! (length data - 1)" using l by (simp add: last_conv_nth)
    with r c that show ?thesis by simp
  qed
qed

lemma sum_list_pos_real:
  fixes xs :: "real list"
  shows "xs \<noteq> [] \<Longrightarrow> \<forall>x\<in>set xs. 0 < x \<Longrightarrow> 0 < sum_list xs"
  by (induction xs) (auto intro: add_pos_nonneg sum_list_nonneg less_imp_le)

lemma sma20_spec_pos:
  assumes "i < length closes" "\<forall>x\<in>set closes. 0 < x"
  shows "0 < sma20_spec closes i"
proof -
  have "0 < sum_list (map (\<lambda>j. closes ! j) [i - 19..<i + 1])"
    using assms by (intro sum_list_pos_real) auto
  then show ?thesis by (simp add: sma20_spec_def mean_def del: upt_Suc)
qed

text \<open>The test \<^verbatim>\<open>current_sma20 and \<dots>\<close> also fails for an SMA of exactly zero, so
  such a series is classified neutral whatever its price; no series of positive closes has
  that SMA.\<close>

lemma trend_of_cases:
  "trend_of sma price = ''bullish'' \<longleftrightarrow> (\<exists>v. sma = Some v \<and> v \<noteq> 0 \<and> price > v)"
  "trend_of sma price = ''bearish'' \<longleftrightarrow> (\<exists>v. sma = Some v \<and> v \<noteq> 0 \<and> price < v)"
  "trend_of sma price = ''neutral'' \<longleftrightarrow> sma = None \<or> sma = Some 0 \<or> sma = Some price"
  by (auto simp: trend_of_def split: option.splits)

lemma returns_total:
  assumes "\<forall>x\<in>set closes. x \<noteq> (0::real)"
  shows "\<exists>rets. map_res (\<lambda>i. bind_res (py_getitem closes i) (\<lambda>a.
                                      bind_res (py_getitem closes (i - 1)) (\<lambda>b.
                                      bind_res (py_getitem closes (i - 1)) (\<lambda>c.
                                      py_div (a - b) c))))
                         (py_range 1 (int (length closes))) = Inr rets"
proof (rule exI, rule map_res_total)
  fix i assume "i \<in> set (py_range 1 (int (length closes)))"
  then have i: "1 \<le> i" "i < int (length closes)"
    by (auto simp: py_range_def)
  then have a: "py_getitem closes i = Inr (closes ! nat i)"
    by (intro py_getitem_int) simp_all
  from i have b: "py_getitem closes (i - 1) = Inr (closes ! nat (i - 1))"
    by (intro py_getitem_int) simp_all
  from i have "closes ! nat (i - 1) \<in> set closes" by simp
  with assms have "closes ! nat (i - 1) \<noteq> 0" by blast
  then show "bind_res (py_getitem closes i) (\<lambda>a.
                                      bind_res (py_getitem closes (i - 1)) (\<lambda>b.
                                      bind_res (py_getitem closes (i - 1)) (\<lambda>c.
                                      py_div (a - b) c)))
             = Inr ((closes ! nat i - closes ! nat (i - 1)) / closes ! nat (i - 1))"
    by (simp add: a b py_div_def)
qed

lemma in_set_mapE: "y \<in> set (map f xs) \<Longrightarrow> \<exists>x\<in>set xs. f x = y"
  by auto

lemma py_max_total: "xs \<noteq> [] \<Longrightarrow> \<exists>m. py_max xs = Inr m \<and> m \<in> set xs"
proof -
  assume ne: "xs \<noteq> []"
  then have "Max (set xs) \<in> set xs" by (intro Max_in) simp_all
  moreover from ne have "py_max xs = Inr (Max (set xs))" by (simp only: py_max_Inr) simp
  ultimately show ?thesis by blast
qed

lemma py_min_total: "xs \<noteq> [] \<Longrightarrow> \<exists>m. py_min xs = Inr m \<and> m \<in> set xs"
proof -
  assume ne: "xs \<noteq> []"
  then have "Min (set xs) \<in> set xs" by (intro Min_in) simp_all
  moreover from ne have "py_min xs = Inr (Min (set xs))" by (simp only: py_min_Inr) simp
  ultimately show ?thesis by blast
qed

lemma derive_summary_total:
  assumes ne: "rows \<noteq> []" and nz: "\<forall>d\<in>set rows. close d \<noteq> 0"
  shows "\<exists>s. derive_summary rows cs cr = Inr s"
proof -
  let ?closes = "map close rows"
  have cne: "?closes \<noteq> []" using ne by simp
  have g: "py_getitem rows (- 1) = Inr (last rows)"
    using ne by (simp add: py_getitem_last last_conv_nth)
  from py_max_total[OF cne] obtain highest where
    hi: "py_max ?closes = Inr highest" and hin: "highest \<in> set ?closes" by blast
  from py_min_total[OF cne] obtain lowest where
    lo: "py_min ?closes = Inr lowest" and lin: "lowest \<in> set ?closes" by blast
  from in_set_mapE[OF hin] have "\<exists>x\<in>set rows. close x = highest" .
  from py_next_total[OF this, where f = date] obtain hdate where
    hd: "py_next (map date (filter (\<lambda>d. close d = highest) rows)) = Inr hdate" by blast
  from in_set_mapE[OF lin] have mx: "\<exists>x\<in>set rows. close x = lowest" .
  from py_next_total[OF mx, where f = date] obtain ldate where
    ld: "py_next (map date (filter (\<lambda>d. close d = lowest) rows)) = Inr ldate" by blast
  from mx nz have lz: "lowest \<noteq> 0" by blast
  have "\<exists>pct. (if length rows > 1
                  then bind_res (py_div (close (last rows) - lowest) lowest)
                         (\<lambda>q. Inr (q * 100))
                  else Inr 0) = Inr pct"
    using lz by (simp add: py_div_def)
  then obtain pct where pct: "(if length rows > 1
                  then bind_res (py_div (close (last rows) - lowest) lowest)
                         (\<lambda>q. Inr (q * 100))
                  else Inr 0) = Inr pct"
    by blast
  have "\<forall>x\<in>set ?closes. x \<noteq> 0" using nz by simp
  from returns_total[OF this] obtain rets0 where
    "map_res (\<lambda>i. bind_res (py_getitem ?closes i) (\<lambda>a.
                                      bind_res (py_getitem ?closes (i - 1)) (\<lambda>b.
                                      bind_res (py_getitem ?closes (i - 1)) (\<lambda>c.
                                      py_div (a - b) c))))
                         (py_range 1 (int (length ?closes))) = Inr rets0" by blast
  then obtain rets where rets: "(if length ?closes > 1
                  then map_res (\<lambda>i. bind_res (py_getitem ?closes i) (\<lambda>a.
                                      bind_res (py_getitem ?closes (i - 1)) (\<lambda>b.
                                      bind_res (py_getitem ?closes (i - 1)) (\<lambda>c.
                                      py_div (a - b) c))))
                         (py_range 1 (int (length ?closes)))
                  else Inr []) = Inr rets"
    by (cases "length ?closes > 1") simp_all
  show ?thesis
    unfolding derive_summary_def Let_def
    by (simp only: g hi lo hd ld pct rets bind_res_Inr) (rule exI, rule refl)
qed

lemma valid_timeframe_period:
  assumes "tf \<in> set valid_timeframes"
  shows "\<exists>p. get_stock_data env t tf =
           ((case history env t p of
                    Inl msg \<Rightarrow> (None, Some (''Error fetching data: '' @ msg))
                  | Inr df \<Rightarrow>
                      if df = []
                      then (None, Some (''Error fetching data: '' @
                                        ''No data found for ticker '' @ t @ ''.''))
                      else (Some (sort_key date df), None)),
                 [History t p])"
  using assms unfolding valid_timeframes_def get_stock_data_def timeframes_def Let_def
  by auto

lemma analyze_stock_total:
  assumes v: "\<not> invalid_input ticker timeframe"
    and h: "\<forall>p. history env (the_str ticker) p = Inr df"
    and ne: "df \<noteq> []"
    and nz: "\<forall>d\<in>set df. close d \<noteq> 0"
  shows "\<exists>s rows p. analyze_stock env ticker timeframe =
            Inr ((Some s, Some rows, None), [History (the_str ticker) p]) \<and>
            map price_point.truncate rows = sort_key date df"
proof -
  from v have "the_str timeframe \<in> set valid_timeframes"
    by (auto simp: invalid_input_cases)
  from valid_timeframe_period[OF this, of env "the_str ticker"] h ne obtain p where
    g: "get_stock_data env (the_str ticker) (the_str timeframe)
          = ((Some (sort_key date df), None), [History (the_str ticker) p])"
    by auto
  have sne: "sort_key date df \<noteq> []" using ne by (cases df) simp_all
  from calc_total[of "sort_key date df"] obtain rows cs cr where
    c: "calculate_technical_indicators (sort_key date df) = Inr (rows, cs, cr)"
    and l: "length rows = length (sort_key date df)"
    and r: "\<forall>i<length (sort_key date df). rows ! i = price_point.extend (sort_key date df ! i)
                 \<lparr>sma20 = sma20_opt (map close (sort_key date df)) i,
                    rsi = rsi14_opt (map close (sort_key date df)) i\<rparr>"
    by blast
  have t: "map price_point.truncate rows = sort_key date df"
    using l r by (intro nth_equalityI) simp_all
  have rne: "rows \<noteq> []" using l sne by auto
  have "set (map close rows) = set (map close df)"
    using calc_rows(2)[OF c] by (metis set_map set_sort)
  with nz have "\<forall>d\<in>set rows. close d \<noteq> 0" by (metis (no_types, lifting) image_iff set_map)
  from derive_summary_total[OF rne this, of cs cr] obtain s where
    d: "derive_summary rows cs cr = Inr s" by blast
  from v g sne c d
  have "analyze_stock env ticker timeframe =
            Inr ((Some s, Some rows, None), [History (the_str ticker) p])"
    by (simp add: analyze_stock_def)
  with t show ?thesis by blast
qed

lemma report_caseE:
  assumes "case r of Inr ((Some s, Some rows, e), calls) \<Rightarrow> Q s rows | _ \<Rightarrow> False"
  obtains s rows e calls where "r = Inr ((Some s, Some rows, e), calls)" and "Q s rows"
proof (cases r)
  case (Inl x)
  with assms show ?thesis by simp
next
  case (Inr x)
  obtain os orows e calls where x: "x = ((os, orows, e), calls)"
    by (cases x) auto
  show ?thesis
  proof (cases os)
    case None
    with assms Inr x show ?thesis by simp
  next
    case s: (Some s)
    show ?thesis
    proof (cases orows)
      case None
      with assms Inr x s show ?thesis by simp
    next
      case (Some rows)
      with assms Inr x s that show ?thesis by simp
    qed
  qed
qed

text \<open>
  Claim C5. Whenever \<open>analyze_stock\<close> returns a report on a series of positive closes (as
  every price series is), the current price is the close of the last row and the trend is
  bullish exactly when the last row has an SMA and the price is strictly above it, bearish
  exactly when it has one and the price is strictly below it, and neutral exactly when the
  SMA is undefined or equals the price.
\<close>

theorem trend_from_price_and_latest_sma:
  assumes a: "analyze_stock env ticker timeframe = Inr ((Some s, Some rows, e), calls)"
      and pos: "\<forall>d\<in>set rows. 0 < close d"
  shows "current_price s = close (last rows) \<and> current_sma20 s = sma20 (last rows) \<and>
         (sma20 (last rows) = None \<longleftrightarrow> length rows < 20) \<and>
         (trend s = ''bullish'' \<longleftrightarrow> (\<exists>v. sma20 (last rows) = Some v \<and> close (last rows) > v)) \<and>
         (trend s = ''bearish'' \<longleftrightarrow> (\<exists>v. sma20 (last rows) = Some v \<and> close (last rows) < v)) \<and>
         (trend s = ''neutral'' \<longleftrightarrow>
            sma20 (last rows) = None \<or> sma20 (last rows) = Some (close (last rows)))"
proof -
  from analyze_stock_report[OF a] obtain df cs cr where
    ne: "df \<noteq> []"
    and c: "calculate_technical_indicators (sort_key date df) = Inr (rows, cs, cr)"
    and d: "derive_summary rows cs cr = Inr s"
    by blast
  let ?data = "sort_key date df"
  have dne: "?data \<noteq> []" using ne by (cases df) simp_all
  have l: "length rows = length ?data" by (rule calc_rows(1)[OF c])
  have cl: "map close rows = map close ?data" by (rule calc_rows(2)[OF c])
  have cs: "cs = sma20 (last rows)" by (rule calc_rows(4)[OF c dne])
  have rne: "rows \<noteq> []" using l dne by auto
  have n1: "length ?data - 1 < length ?data" using ne by (cases df) simp_all
  have "last rows = rows ! (length ?data - 1)"
    using rne l by (simp add: last_conv_nth)
  then have so: "sma20 (last rows) = sma20_opt (map close ?data) (length ?data - 1)"
    using calc_rows(5)[OF c n1] by simp
  have "\<forall>x\<in>set (map close ?data). 0 < x"
    using pos cl by (metis (no_types, lifting) in_set_mapE)
  from sma20_spec_pos[OF _ this, of "length ?data - 1"] n1
  have "0 < sma20_spec (map close ?data) (length ?data - 1)" by simp
  with so have nz: "sma20 (last rows) \<noteq> Some 0"
    by (auto simp: sma20_opt_def split: if_splits)
  from so l have und: "sma20 (last rows) = None \<longleftrightarrow> length rows < 20"
    by (auto simp: sma20_opt_def split: if_splits)
  have t: "trend s = trend_of (sma20 (last rows)) (close (last rows))"
    using derive_summary_Inr(9)[OF d] cs by simp
  have p: "current_price s = close (last rows)" by (rule derive_summary_Inr(2)[OF d])
  have q: "current_sma20 s = sma20 (last rows)" using derive_summary_Inr(7)[OF d] cs by simp
  have b1: "trend s = ''bullish'' \<longleftrightarrow> (\<exists>v. sma20 (last rows) = Some v \<and> close (last rows) > v)"
    unfolding t trend_of_cases using nz by auto
  have b2: "trend s = ''bearish'' \<longleftrightarrow> (\<exists>v. sma20 (last rows) = Some v \<and> close (last rows) < v)"
    unfolding t trend_of_cases using nz by auto
  have b3: "trend s = ''neutral'' \<longleftrightarrow>
            sma20 (last rows) = None \<or> sma20 (last rows) = Some (close (last rows))"
    unfolding t trend_of_cases using nz by auto
  from p q und b1 b2 b3 show ?thesis by blast
qed

theorem trend_from_price_and_latest_sma_witness:
  "\<exists>s rows e calls.
     analyze_stock (provider_of (Inr (series ramp20))) (PyStr ''AAPL'') (PyStr ''1M'')
       = Inr ((Some s, Some rows, e), calls) \<and>
     (\<forall>d\<in>set rows. 0 < close d) \<and> trend s = ''bullish'' \<and>
     (\<exists>v. sma20 (last rows) = Some v \<and> close (last rows) > v)"
proof -
  have "case analyze_stock (provider_of (Inr (series ramp20))) (PyStr ''AAPL'') (PyStr ''1M'') of
          Inr ((Some s, Some rows, e), calls) \<Rightarrow>
            (\<forall>d\<in>set rows. 0 < close d) \<and> trend s = ''bullish''
        | _ \<Rightarrow> False"
    by code_simp
  then obtain s rows e calls where
    a: "analyze_stock (provider_of (Inr (series ramp20))) (PyStr ''AAPL'') (PyStr ''1M'')
          = Inr ((Some s, Some rows, e), calls)"
    and pb: "(\<forall>d\<in>set rows. 0 < close d) \<and> trend s = ''bullish''"
    by (rule report_caseE)
  from pb have pos: "\<forall>d\<in>set rows. 0 < close d" and bull: "trend s = ''bullish''"
    by blast+
  from trend_from_price_and_latest_sma[OF a pos] bull
  have "\<exists>v. sma20 (last rows) = Some v \<and> close (last rows) > v" by blast
  with a pos bull show ?thesis by blast
qed

text \<open>
  Claim C8. Whenever \<open>analyze_stock\<close> returns a report, its rows are non-empty and in date
  order, the highest peak is the maximum close and its date is that of the first row with
  that close, which is the earliest date among the rows with that close; likewise for the
  lowest peak and the minimum close.
\<close>

theorem peak_dates_are_first_occurrences:
  assumes a: "analyze_stock env ticker timeframe = Inr ((Some s, Some rows, e), calls)"
  shows "rows \<noteq> [] \<and> sorted (map date rows) \<and>
         highest_peak s = Max (set (map close rows)) \<and>
         lowest_peak s = Min (set (map close rows)) \<and>
         (\<exists>k<length rows. close (rows ! k) = highest_peak s \<and>
            (\<forall>j<k. close (rows ! j) \<noteq> highest_peak s) \<and> highest_peak_date s = date (rows ! k)) \<and>
         (\<exists>k<length rows. close (rows ! k) = lowest_peak s \<and>
            (\<forall>j<k. close (rows ! j) \<noteq> lowest_peak s) \<and> lowest_peak_date s = date (rows ! k)) \<and>
         (\<forall>d\<in>set rows. close d = highest_peak s \<longrightarrow> highest_peak_date s \<le> date d) \<and>
         (\<forall>d\<in>set rows. close d = lowest_peak s \<longrightarrow> lowest_peak_date s \<le> date d)"
proof -
  from analyze_stock_report[OF a] obtain df cs cr where
    c: "calculate_technical_indicators (sort_key date df) = Inr (rows, cs, cr)"
    and d: "derive_summary rows cs cr = Inr s"
    by blast
  have "map date rows = map date (sort_key date df)" by (rule calc_rows(3)[OF c])
  then have srt: "sorted (map date rows)" by (simp only: sorted_sort_key)
  have first_is_earliest: "\<forall>x\<in>set rows. P x \<longrightarrow> date (rows ! k) \<le> date x"
    if k: "k < length rows" and f: "\<forall>j<k. \<not> P (rows ! j)" for P k
  proof (intro ballI impI)
    fix x assume "x \<in> set rows" and px: "P x"
    then obtain j where j: "j < length rows" and x: "x = rows ! j"
      by (auto simp: in_set_conv_nth)
    with f px have "k \<le> j" by (meson not_le)
    with srt j have "map date rows ! k \<le> map date rows ! j"
      by (intro sorted_nth_mono) simp_all
    with k j x show "date (rows ! k) \<le> date x" by simp
  qed
  from derive_summary_Inr(5)[OF d] obtain kh where
    kh: "kh < length rows" "close (rows ! kh) = highest_peak s"
        "\<forall>j<kh. close (rows ! j) \<noteq> highest_peak s" "highest_peak_date s = date (rows ! kh)"
    by blast
  from derive_summary_Inr(6)[OF d] obtain kl where
    kl: "kl < length rows" "close (rows ! kl) = lowest_peak s"
        "\<forall>j<kl. close (rows ! j) \<noteq> lowest_peak s" "lowest_peak_date s = date (rows ! kl)"
    by blast
  have eh: "\<forall>d\<in>set rows. close d = highest_peak s \<longrightarrow> highest_peak_date s \<le> date d"
    using first_is_earliest[of kh "\<lambda>d. close d = highest_peak s"] kh by simp
  have el: "\<forall>d\<in>set rows. close d = lowest_peak s \<longrightarrow> lowest_peak_date s \<le> date d"
    using first_is_earliest[of kl "\<lambda>d. close d = lowest_peak s"] kl by simp
  from derive_summary_Inr(1,3,4)[OF d] srt kh kl eh el show ?thesis by blast
qed

theorem peak_dates_are_first_occurrences_witness:
  "\<exists>s rows e calls.
     analyze_stock (provider_of (Inr unsorted5)) (PyStr ''AAPL'') (PyStr ''5D'')
       = Inr ((Some s, Some rows, e), calls) \<and>
     map date rows = [0, 1, 2, 3, 4] \<and> map close rows = [3, 7, 7, 2, 2] \<and>
     highest_peak s = 7 \<and> highest_peak_date s = 1 \<and>
     lowest_peak s = 2 \<and> lowest_peak_date s = 3 \<and>
     (\<forall>d\<in>set rows. close d = highest_peak s \<longrightarrow> highest_peak_date s \<le> date d) \<and>
     (\<forall>d\<in>set rows. close d = lowest_peak s \<longrightarrow> lowest_peak_date s \<le> date d)"
proof -
  have "case analyze_stock (provider_of (Inr unsorted5)) (PyStr ''AAPL'') (PyStr ''5D'') of
          Inr ((Some s, Some rows, e), calls) \<Rightarrow>
            map date rows = [0, 1, 2, 3, 4] \<and> map close rows = [3, 7, 7, 2, 2] \<and>
            highest_peak s = 7 \<and> highest_peak_date s = 1 \<and>
            lowest_peak s = 2 \<and> lowest_peak_date s = 3
        | _ \<Rightarrow> False"
    by code_simp
  then obtain s rows e calls where
    a: "analyze_stock (provider_of (Inr unsorted5)) (PyStr ''AAPL'') (PyStr ''5D'')
          = Inr ((Some s, Some rows, e), calls)"
    and v: "map date rows = [0, 1, 2, 3, 4] \<and> map close rows = [3, 7, 7, 2, 2] \<and>
            highest_peak s = 7 \<and> highest_peak_date s = 1 \<and>
            lowest_peak s = 2 \<and> lowest_peak_date s = 3"
    by (rule report_caseE)
  from peak_dates_are_first_occurrences[OF a]
  have "(\<forall>d\<in>set rows. close d = highest_peak s \<longrightarrow> highest_peak_date s \<le> date d) \<and>
        (\<forall>d\<in>set rows. close d = lowest_peak s \<longrightarrow> lowest_peak_date s \<le> date d)"
    by blast
  with a v show ?thesis
    by (intro exI[where x = s] exI[where x = rows] exI[where x = e] exI[where x = calls]) simp
qed

end
